theory Spec2Isabelle
  imports Main "HOL-Library.Word"
begin

section \<open>Errors, responses and the outcome of a request\<close>

text \<open>
  The webhook server is an Express application. A request to \<^verbatim>\<open>POST /webhook\<close>
  runs the body parser \<^verbatim>\<open>express.raw\<close>, the middleware \<^verbatim>\<open>verifySignature\<close> and then
  the asynchronous route handler. The parser refuses the request, or one of the other two
  sends a response through \<^verbatim>\<open>res.status(..).json(..)\<close>, or an exception leaves the
  repository's code and reaches the framework. These ends are values of the model:
  \<open>Responded\<close> for a response, \<open>Uncaught\<close> for an exception that no \<^verbatim>\<open>try\<close> of
  the repository catches.
\<close>

datatype error =
    SyntaxError
  | TypeError
  | RangeError
  | RequestError string
  | LibraryError string
  | AggregateError "error list"

text \<open>
  A response is either the JSON response \<^verbatim>\<open>res.status(s).json({key: text})\<close> that
  the code sends, or the answer of the framework's error handler to an error that a
  middleware passed on with \<^verbatim>\<open>next(err)\<close>: it carries the status of the error.
\<close>

datatype response = Response nat string string | Error_page nat

datatype outcome = Responded response | Uncaught error

fun status_of :: "response \<Rightarrow> nat" where
  "status_of (Response s k v) = s"
| "status_of (Error_page s) = s"

section \<open>The signature verifier\<close>

subsection \<open>What the runtime provides\<close>

text \<open>
  \<^verbatim>\<open>createHmac('sha256', secret).update(payload)\<close> is the runtime's HMAC-SHA-256. The
  model takes it as a parameter \<open>hmac\<close> from key and message bytes to a 256-bit
  digest; every theorem below holds for every such function. \<^verbatim>\<open>digest('hex')\<close>
  prints the digest as 64 lowercase hexadecimal digits, most significant first.
\<close>

type_synonym hmac_fn = "string \<Rightarrow> string \<Rightarrow> 256 word"

definition hexdigit :: "nat \<Rightarrow> char" where
  "hexdigit n = ''0123456789abcdef'' ! (n mod 16)"

fun hex_of :: "nat \<Rightarrow> nat \<Rightarrow> string" where
  "hex_of 0 n = []"
| "hex_of (Suc k) n = hex_of k (n div 16) @ [hexdigit (n mod 16)]"

definition digest_hex :: "256 word \<Rightarrow> string" where
  "digest_hex w = hex_of 64 (unat w)"

text \<open>
  \<^verbatim>\<open>Buffer.from(s)\<close> encodes a string as UTF-8. A header value is a string of code
  units below 256 (Node decodes headers as Latin-1): a code unit below 128 is one byte,
  any other is two.
\<close>

fun utf8_char :: "char \<Rightarrow> string" where
  "utf8_char c =
     (if of_char c < (128::nat) then [c]
      else [char_of (192 + of_char c div (64::nat)), char_of (128 + of_char c mod (64::nat))])"

definition Buffer_from :: "string \<Rightarrow> string" where
  "Buffer_from s = concat (map utf8_char s)"

text \<open>
  \<^verbatim>\<open>crypto.timingSafeEqual(a, b)\<close> throws a \<^verbatim>\<open>RangeError\<close> when the two buffers differ
  in byte length, and otherwise returns whether they are equal.
\<close>

definition timingSafeEqual :: "string \<Rightarrow> string \<Rightarrow> error + bool" where
  "timingSafeEqual a b = (if length a \<noteq> length b then Inl RangeError else Inr (a = b))"

subsection \<open>The body as text\<close>

text \<open>
  \<^verbatim>\<open>buffer.toString()\<close> decodes bytes as UTF-8. A well-formed sequence is the character
  it encodes; every ill-formed part (a byte that cannot start a sequence, or the longest
  prefix of a sequence that a wrong byte or the end of the input cuts short) becomes the
  character U+FFFD, and decoding resumes at the byte that broke the sequence. A string of
  the program is represented by the UTF-8 bytes of its text, so the decoded string is
  the input with \<^verbatim>\<open>EF BF BD\<close> in place of each ill-formed part.

  The decoder reads byte by byte. Its state holds the bytes of the sequence read so far,
  the number of bytes still due, and the bounds of the next byte.
\<close>

type_synonym utf8_state = "string \<times> nat \<times> nat \<times> nat"

definition replacement :: string where
  "replacement = [CHR 0xEF, CHR 0xBF, CHR 0xBD]"

definition utf8_idle :: utf8_state where
  "utf8_idle = ([], 0, 0, 0)"

definition utf8_start :: "char \<Rightarrow> utf8_state \<times> string" where
  "utf8_start c =
     (let n = of_char c :: nat in
      if n < 0x80 then (utf8_idle, [c])
      else if 0xC2 \<le> n \<and> n \<le> 0xDF then (([c], 1, 0x80, 0xBF), [])
      else if n = 0xE0 then (([c], 2, 0xA0, 0xBF), [])
      else if n = 0xED then (([c], 2, 0x80, 0x9F), [])
      else if 0xE1 \<le> n \<and> n \<le> 0xEF then (([c], 2, 0x80, 0xBF), [])
      else if n = 0xF0 then (([c], 3, 0x90, 0xBF), [])
      else if 0xF1 \<le> n \<and> n \<le> 0xF3 then (([c], 3, 0x80, 0xBF), [])
      else if n = 0xF4 then (([c], 3, 0x80, 0x8F), [])
      else (utf8_idle, replacement))"

definition utf8_step :: "utf8_state \<Rightarrow> char \<Rightarrow> utf8_state \<times> string" where
  "utf8_step st c =
     (case st of (seen, due, lo, hi) \<Rightarrow>
        if due = 0 then utf8_start c
        else if lo \<le> of_char c \<and> of_char c \<le> hi then
          (if due = 1 then (utf8_idle, seen @ [c]) else ((seen @ [c], due - 1, 0x80, 0xBF), []))
        else (fst (utf8_start c), replacement @ snd (utf8_start c)))"

fun utf8_run :: "utf8_state \<Rightarrow> string \<Rightarrow> string" where
  "utf8_run st [] = (if fst (snd st) = 0 then [] else replacement)"
| "utf8_run st (c # cs) = snd (utf8_step st c) @ utf8_run (fst (utf8_step st c)) cs"

definition Buffer_toString :: "string \<Rightarrow> string" where
  "Buffer_toString bytes = utf8_run utf8_idle bytes"

subsection \<open>The request and the body parser\<close>

text \<open>
  A request to \<^verbatim>\<open>POST /webhook\<close>: the three headers the code reads (a header that was
  not sent reads as \<^verbatim>\<open>undefined\<close>, here \<open>None\<close>), whether its \<^verbatim>\<open>Content-Type\<close> names
  the media type \<^verbatim>\<open>application/json\<close>, and the bytes of its body as they arrive, in
  full and without content coding; \<open>None\<close> is a request without a body (it has neither
  \<^verbatim>\<open>Content-Length\<close> nor \<^verbatim>\<open>Transfer-Encoding\<close>).
\<close>

record request =
  hdr_signature :: "string option"
  hdr_event :: "string option"
  hdr_delivery :: "string option"
  content_type_json :: bool
  raw_body :: "string option"

text \<open>
  \<^verbatim>\<open>app.use(express.raw({ type: 'application/json' }))\<close> runs first. It reads the body
  of a request of that content type into a \<^verbatim>\<open>Buffer\<close> and stores it in \<^verbatim>\<open>req.body\<close>;
  it skips a request without a body or of another content type, whose \<^verbatim>\<open>req.body\<close> is
  then the empty object (\<^verbatim>\<open>undefined\<close> in version 5 of the framework, on which the
  middleware below throws as well). No limit is configured, so the parser's default of 100 kB
  applies: for a longer body it passes an error of status 413 to the framework, whose
  error handler answers with that status, and nothing else runs.
\<close>

datatype body = Buffer string | Empty_object

datatype verdict = Next | Reply response | Throws error

definition body_limit :: nat where
  "body_limit = 100 * 1024"

definition req_body :: "request \<Rightarrow> body" where
  "req_body req =
     (case raw_body req of
        None \<Rightarrow> Empty_object
      | Some bytes \<Rightarrow> if content_type_json req then Buffer bytes else Empty_object)"

definition express_raw :: "request \<Rightarrow> verdict" where
  "express_raw req =
     (case req_body req of
        Buffer bytes \<Rightarrow> if length bytes > body_limit then Reply (Error_page 413) else Next
      | Empty_object \<Rightarrow> Next)"

subsection \<open>The middleware\<close>

text \<open>
  \<^verbatim>\<open>verifySignature\<close> reads the header and \<^verbatim>\<open>req.body\<close>. \<^verbatim>\<open>update(payload)\<close> takes a
  string or a buffer: on the empty object it throws a \<^verbatim>\<open>TypeError\<close>.
\<close>

definition expectedSignature :: "hmac_fn \<Rightarrow> string \<Rightarrow> string \<Rightarrow> string" where
  "expectedSignature hmac webhookSecret payload = ''sha256='' @ digest_hex (hmac webhookSecret payload)"

definition verifySignature :: "hmac_fn \<Rightarrow> string \<Rightarrow> request \<Rightarrow> verdict" where
  "verifySignature hmac webhookSecret req =
     (case hdr_signature req of
        None \<Rightarrow> Reply (Response 401 ''error'' ''Missing signature'')
      | Some signature \<Rightarrow>
          if signature = [] then Reply (Response 401 ''error'' ''Missing signature'')
          else
            (case req_body req of
               Empty_object \<Rightarrow> Throws TypeError
             | Buffer payload \<Rightarrow>
                 (case timingSafeEqual (Buffer_from signature)
                         (Buffer_from (expectedSignature hmac webhookSecret payload)) of
                    Inl e \<Rightarrow> Throws e
                  | Inr False \<Rightarrow> Reply (Response 401 ''error'' ''Invalid signature'')
                  | Inr True \<Rightarrow> Next)))"

section \<open>Values, effects and exceptions\<close>

text \<open>
  Payloads are typed \<^verbatim>\<open>any\<close>: whatever \<^verbatim>\<open>JSON.parse\<close> returned. A value is a JSON
  value or \<^verbatim>\<open>undefined\<close> (what reading a missing property gives). Numbers are
  modelled by integers; a string value holds the UTF-8 bytes of its text.
\<close>

datatype jsval =
    Undefined
  | Null
  | Bool bool
  | Num int
  | Str string
  | Arr "jsval list"
  | Obj "(string \<times> jsval) list"

datatype level = LInfo | LWarn | LError | LDebug

datatype handler_name =
    PushHandler
  | PullRequestHandler
  | ReleaseHandler
  | WorkflowHandler
  | IssuesHandler
  | RepositoryHandler

text \<open>
  What a run of the code does besides returning: a call of the \<^verbatim>\<open>Logger\<close> (level,
  message template, the values interpolated into the template), a request to the platform
  API (method and parameters), and a call of a handler's \<^verbatim>\<open>handle\<close> with its argument.
\<close>

datatype effect =
    Log level string "jsval list"
  | Api string jsval
  | Handle handler_name jsval

text \<open>
  A computation yields the effects it performed, in order, and either its value or the
  exception it threw. \<^verbatim>\<open>await\<close> of an asynchronous function is sequential composition:
  a rejected promise is a thrown exception at the \<^verbatim>\<open>await\<close>.
\<close>

type_synonym 'a run = "effect list \<times> (error + 'a)"

definition ret :: "'a \<Rightarrow> 'a run" where
  "ret x = ([], Inr x)"

definition throw :: "error \<Rightarrow> 'a run" where
  "throw e = ([], Inl e)"

definition emit :: "effect \<Rightarrow> unit run" where
  "emit f = ([f], Inr ())"

definition and_then :: "'a run \<Rightarrow> ('a \<Rightarrow> 'b run) \<Rightarrow> 'b run" where
  "and_then m k =
     (case snd m of
        Inl e \<Rightarrow> (fst m, Inl e)
      | Inr x \<Rightarrow> (fst m @ fst (k x), snd (k x)))"

definition try_catch :: "'a run \<Rightarrow> (error \<Rightarrow> 'a run) \<Rightarrow> 'a run" where
  "try_catch m h =
     (case snd m of
        Inl e \<Rightarrow> (fst m @ fst (h e), snd (h e))
      | Inr x \<Rightarrow> m)"

text \<open>A block of statements, run in order until one throws.\<close>

fun block :: "unit run list \<Rightarrow> unit run" where
  "block [] = ret ()"
| "block (m # ms) = and_then m (\<lambda>_. block ms)"

text \<open>Expressions evaluated left to right, as the properties of an object literal are.\<close>

fun eval_list :: "'a run list \<Rightarrow> 'a list run" where
  "eval_list [] = ret []"
| "eval_list (m # ms) = and_then m (\<lambda>x. and_then (eval_list ms) (\<lambda>xs. ret (x # xs)))"

definition when_do :: "bool \<Rightarrow> unit run \<Rightarrow> unit run" where
  "when_do c m = (if c then m else ret ())"

definition threw :: "'a run \<Rightarrow> bool" where
  "threw m = (case snd m of Inl e \<Rightarrow> True | Inr x \<Rightarrow> False)"

subsection \<open>The operations of the language the handlers use\<close>

text \<open>
  The length of a string counts UTF-16 code units: one for a character of up to three
  bytes, two for a character of four bytes. Iterating a string yields its characters.
\<close>

definition continuation :: "char \<Rightarrow> bool" where
  "continuation c = (0x80 \<le> (of_char c :: nat) \<and> (of_char c :: nat) < 0xC0)"

definition code_units :: "char \<Rightarrow> nat" where
  "code_units c = (if continuation c then 0 else if 0xF0 \<le> (of_char c :: nat) then 2 else 1)"

definition string_length :: "string \<Rightarrow> nat" where
  "string_length s = sum_list (map code_units s)"

function characters :: "string \<Rightarrow> string list" where
  "characters [] = []"
| "characters (c # cs) = (c # takeWhile continuation cs) # characters (dropWhile continuation cs)"
  by pat_completeness auto

termination characters
  by (relation "measure length") (simp_all add: length_dropWhile_le less_Suc_eq_le)

text \<open>
  \<^verbatim>\<open>x.p\<close>: a \<^verbatim>\<open>TypeError\<close> on \<^verbatim>\<open>undefined\<close> and \<^verbatim>\<open>null\<close>; the property
  of an object, or \<^verbatim>\<open>undefined\<close> when it has none of that name; \<^verbatim>\<open>length\<close> of an
  array or a string. Destructuring \<^verbatim>\<open>const { p } = x\<close> reads the same way. The names
  the code reads are never those of inherited properties.
\<close>

fun get :: "jsval \<Rightarrow> string \<Rightarrow> jsval run" where
  "get Undefined p = throw TypeError"
| "get Null p = throw TypeError"
| "get (Obj kvs) p = ret (case map_of kvs p of None \<Rightarrow> Undefined | Some v \<Rightarrow> v)"
| "get (Arr xs) p = ret (if p = ''length'' then Num (int (length xs)) else Undefined)"
| "get (Str s) p = ret (if p = ''length'' then Num (int (string_length s)) else Undefined)"
| "get (Bool b) p = ret Undefined"
| "get (Num n) p = ret Undefined"

text \<open>\<^verbatim>\<open>x.p.q\<close> and longer chains.\<close>

fun gets :: "jsval \<Rightarrow> string list \<Rightarrow> jsval run" where
  "gets x [] = ret x"
| "gets x (p # ps) = and_then (get x p) (\<lambda>y. gets y ps)"

text \<open>\<^verbatim>\<open>x?.p\<close>.\<close>

fun opt_get :: "jsval \<Rightarrow> string \<Rightarrow> jsval run" where
  "opt_get Undefined p = ret Undefined"
| "opt_get Null p = ret Undefined"
| "opt_get x p = get x p"

fun truthy :: "jsval \<Rightarrow> bool" where
  "truthy Undefined = False"
| "truthy Null = False"
| "truthy (Bool b) = b"
| "truthy (Num n) = (n \<noteq> 0)"
| "truthy (Str s) = (s \<noteq> [])"
| "truthy (Arr xs) = True"
| "truthy (Obj kvs) = True"

text \<open>\<^verbatim>\<open>a || b\<close> on values.\<close>

definition or_else :: "jsval \<Rightarrow> jsval \<Rightarrow> jsval" where
  "or_else a b = (if truthy a then a else b)"

text \<open>
  Calling a string method (\<^verbatim>\<open>replace\<close>, \<^verbatim>\<open>match\<close>, \<^verbatim>\<open>startsWith\<close>,
  \<^verbatim>\<open>endsWith\<close>, \<^verbatim>\<open>toLowerCase\<close>) on a value: the receiver must be a string; on any
  other value the method is missing or the receiver is \<^verbatim>\<open>undefined\<close> or \<^verbatim>\<open>null\<close>,
  a \<^verbatim>\<open>TypeError\<close> either way.
\<close>

fun as_string :: "jsval \<Rightarrow> string run" where
  "as_string (Str s) = ret s"
| "as_string x = throw TypeError"

text \<open>
  Iterating a value (\<^verbatim>\<open>for ... of\<close>, spread): the elements of an array, the
  characters of a string, a \<^verbatim>\<open>TypeError\<close> on anything else.
\<close>

fun iterate :: "jsval \<Rightarrow> jsval list run" where
  "iterate (Arr xs) = ret xs"
| "iterate (Str s) = ret (map Str (characters s))"
| "iterate x = throw TypeError"

text \<open>An array method (\<^verbatim>\<open>map\<close>, \<^verbatim>\<open>filter\<close>, \<^verbatim>\<open>some\<close>) needs an array.\<close>

fun as_array :: "jsval \<Rightarrow> jsval list run" where
  "as_array (Arr xs) = ret xs"
| "as_array x = throw TypeError"

fun includes_str :: "string \<Rightarrow> string \<Rightarrow> bool" where
  "includes_str [] sub = (sub = [])"
| "includes_str (c # cs) sub = (take (length sub) (c # cs) = sub \<or> includes_str cs sub)"

text \<open>
  \<^verbatim>\<open>x.includes(s)\<close> for a string \<open>s\<close>: substring test on a string, membership
  on an array, a \<^verbatim>\<open>TypeError\<close> on anything else.
\<close>

fun js_includes :: "jsval \<Rightarrow> string \<Rightarrow> bool run" where
  "js_includes (Str t) s = ret (includes_str t s)"
| "js_includes (Arr xs) s = ret (Str s \<in> set xs)"
| "js_includes x s = throw TypeError"

definition startsWith :: "string \<Rightarrow> string \<Rightarrow> bool" where
  "startsWith s pre = (take (length pre) s = pre)"

definition endsWith :: "string \<Rightarrow> string \<Rightarrow> bool" where
  "endsWith s suf = (length suf \<le> length s \<and> drop (length s - length suf) s = suf)"

text \<open>\<^verbatim>\<open>s.replace(pat, '')\<close> with a string pattern: the first occurrence is removed.\<close>

fun remove_first :: "string \<Rightarrow> string \<Rightarrow> string" where
  "remove_first pat [] = []"
| "remove_first pat (c # cs) =
     (if take (length pat) (c # cs) = pat then drop (length pat) (c # cs)
      else c # remove_first pat cs)"

text \<open>\<^verbatim>\<open>array.some(f)\<close>: stops at the first element on which \<open>f\<close> is true.\<close>

fun some_of :: "('a \<Rightarrow> bool run) \<Rightarrow> 'a list \<Rightarrow> bool run" where
  "some_of f [] = ret False"
| "some_of f (x # xs) = and_then (f x) (\<lambda>b. if b then ret True else some_of f xs)"

fun filter_of :: "('a \<Rightarrow> bool run) \<Rightarrow> 'a list \<Rightarrow> 'a list run" where
  "filter_of f [] = ret []"
| "filter_of f (x # xs) =
     and_then (f x) (\<lambda>b. and_then (filter_of f xs) (\<lambda>ys. ret (if b then x # ys else ys)))"

fun for_each :: "('a \<Rightarrow> unit run) \<Rightarrow> 'a list \<Rightarrow> unit run" where
  "for_each f [] = ret ()"
| "for_each f (x # xs) = and_then (f x) (\<lambda>_. for_each f xs)"

text \<open>\<^verbatim>\<open>set.add(s)\<close> on a \<^verbatim>\<open>Set\<close>, which keeps insertion order.\<close>

definition set_add :: "string list \<Rightarrow> string \<Rightarrow> string list" where
  "set_add servers s = (if s \<in> set servers then servers else servers @ [s])"

subsection \<open>Text\<close>

text \<open>
  Template literals convert the interpolated value to a string. An object is converted
  through its \<^verbatim>\<open>toString\<close>: the inherited one gives \<^verbatim>\<open>[object Object]\<close>; an object
  with a property of that name of its own, which is not a function in a decoded payload,
  has no conversion and the template literal throws a \<^verbatim>\<open>TypeError\<close>. An array is
  converted element by element.
\<close>

fun show_nat :: "nat \<Rightarrow> string" where
  "show_nat n =
     (if n < 10 then [''0123456789'' ! n]
      else show_nat (n div 10) @ [''0123456789'' ! (n mod 10)])"

fun join :: "string \<Rightarrow> string list \<Rightarrow> string" where
  "join sep [] = []"
| "join sep [x] = x"
| "join sep (x # y # ys) = x @ sep @ join sep (y # ys)"

fun string_of :: "jsval \<Rightarrow> string option" where
  "string_of Undefined = Some ''undefined''"
| "string_of Null = Some ''null''"
| "string_of (Bool b) = Some (if b then ''true'' else ''false'')"
| "string_of (Num n) = Some (if n < 0 then ''-'' @ show_nat (nat (- n)) else show_nat (nat n))"
| "string_of (Str s) = Some s"
| "string_of (Arr xs) =
     map_option (join '','')
       (those (map (\<lambda>x. if x = Undefined \<or> x = Null then Some [] else string_of x) xs))"
| "string_of (Obj kvs) = (if map_of kvs ''toString'' = None then Some ''[object Object]'' else None)"

definition to_string :: "jsval \<Rightarrow> string run" where
  "to_string x = (case string_of x of None \<Rightarrow> throw TypeError | Some s \<Rightarrow> ret s)"

definition char_between :: "char \<Rightarrow> char \<Rightarrow> char \<Rightarrow> bool" where
  "char_between lo hi c = ((of_char lo :: nat) \<le> of_char c \<and> (of_char c :: nat) \<le> of_char hi)"

text \<open>
  \<^verbatim>\<open>toLowerCase\<close>. The letters \<^verbatim>\<open>A\<close> to \<^verbatim>\<open>Z\<close> become \<^verbatim>\<open>a\<close> to \<^verbatim>\<open>z\<close>. Two
  characters outside ASCII have a lower case with an ASCII letter: U+212A (bytes
  \<^verbatim>\<open>E2 84 AA\<close>) becomes \<^verbatim>\<open>k\<close>, and U+0130 (\<^verbatim>\<open>C4 B0\<close>) becomes \<^verbatim>\<open>i\<close> followed by
  U+0307 (\<^verbatim>\<open>CC 87\<close>). Every other character outside ASCII is mapped to characters
  outside ASCII again and is kept as it is here: the code only searches the result for
  ASCII text and white space, which none of them is or becomes.
\<close>

definition lower_ascii :: "char \<Rightarrow> char" where
  "lower_ascii c = (if char_between CHR ''A'' CHR ''Z'' c then char_of (of_char c + (32::nat)) else c)"

fun toLowerCase :: "string \<Rightarrow> string" where
  "toLowerCase (a # b # c # cs) =
     (if a = CHR 0xE2 \<and> b = CHR 0x84 \<and> c = CHR 0xAA then CHR ''k'' # toLowerCase cs
      else if a = CHR 0xC4 \<and> b = CHR 0xB0 then CHR ''i'' # CHR 0xCC # CHR 0x87 # toLowerCase (c # cs)
      else lower_ascii a # toLowerCase (b # c # cs))"
| "toLowerCase [a, b] =
     (if a = CHR 0xC4 \<and> b = CHR 0xB0 then [CHR ''i'', CHR 0xCC, CHR 0x87]
      else [lower_ascii a, lower_ascii b])"
| "toLowerCase [a] = [lower_ascii a]"
| "toLowerCase [] = []"

definition newline :: string where
  "newline = [CHR 0x0A]"

subsection \<open>The logger and the API client\<close>

text \<open>
  Modelled from the spec: \<^verbatim>\<open>utils/logger.js\<close> is not among the sources. A call
  \<^verbatim>\<open>Logger.info(message, meta)\<close> writes one structured log line and returns. The model
  evaluates the expressions interpolated into the message, converting each to a string,
  and then those of the meta object (either may throw), and records level, message
  template and the interpolated strings.
\<close>

definition logger :: "level \<Rightarrow> string \<Rightarrow> jsval run list \<Rightarrow> jsval run list \<Rightarrow> unit run" where
  "logger lvl msg interpolated meta =
     and_then (eval_list (map (\<lambda>m. and_then m to_string) interpolated)) (\<lambda>vs.
     and_then (eval_list meta) (\<lambda>_.
     emit (Log lvl msg (map Str vs))))"

text \<open>
  The Octokit client: a request (method, parameter object) is answered by a response
  object or rejected. The client is \<^verbatim>\<open>null\<close> when no token is configured.
\<close>

type_synonym octokit = "string \<Rightarrow> jsval \<Rightarrow> error + jsval"

definition request_api :: "octokit \<Rightarrow> string \<Rightarrow> (string \<times> jsval run) list \<Rightarrow> jsval run" where
  "request_api client method params =
     and_then (eval_list (map snd params)) (\<lambda>vs.
     and_then (emit (Api method (Obj (zip (map fst params) vs)))) (\<lambda>_.
     (case client method (Obj (zip (map fst params) vs)) of
        Inl e \<Rightarrow> throw e
      | Inr v \<Rightarrow> ret v)))"

section \<open>PushHandler\<close>

text \<open>The regular expression \<^verbatim>\<open>/^src\/([^\/]+)\//\<close>: the first capture group of a match.\<close>

definition match_src :: "string \<Rightarrow> string option" where
  "match_src path =
     (if take 4 path = ''src/'' then
        (let rest = drop 4 path; seg = takeWhile (\<lambda>c. c \<noteq> CHR ''/'') rest
         in if seg \<noteq> [] \<and> length seg < length rest then Some seg else None)
      else None)"

text \<open>\<^verbatim>\<open>[...(commit.added || []), ...(commit.modified || []), ...(commit.removed || [])]\<close>.\<close>

definition changedFiles :: "jsval \<Rightarrow> jsval list run" where
  "changedFiles commit =
     and_then (get commit ''added'') (\<lambda>a.
     and_then (iterate (or_else a (Arr []))) (\<lambda>as.
     and_then (get commit ''modified'') (\<lambda>m.
     and_then (iterate (or_else m (Arr []))) (\<lambda>ms.
     and_then (get commit ''removed'') (\<lambda>r.
     and_then (iterate (or_else r (Arr []))) (\<lambda>rs.
     ret (as @ ms @ rs)))))))"

text \<open>The inner loop of both server scans: \<^verbatim>\<open>file.match(..)\<close>, then \<^verbatim>\<open>servers.add(match[1])\<close>.\<close>

fun add_servers :: "jsval list \<Rightarrow> string list \<Rightarrow> string list run" where
  "add_servers [] servers = ret servers"
| "add_servers (file # files) servers =
     and_then (as_string file) (\<lambda>path.
     add_servers files (case match_src path of None \<Rightarrow> servers | Some s \<Rightarrow> set_add servers s))"

fun scan_commits :: "jsval list \<Rightarrow> string list \<Rightarrow> string list run" where
  "scan_commits [] servers = ret servers"
| "scan_commits (commit # commits) servers =
     and_then (changedFiles commit) (\<lambda>files.
     and_then (add_servers files servers) (\<lambda>servers'.
     scan_commits commits servers'))"

definition getAffectedServers :: "jsval \<Rightarrow> string list run" where
  "getAffectedServers commits = and_then (iterate commits) (\<lambda>cs. scan_commits cs [])"

definition triggerServerTests :: "octokit option \<Rightarrow> jsval \<Rightarrow> string list \<Rightarrow> unit run" where
  "triggerServerTests octokit repository servers =
     (case octokit of
        None \<Rightarrow> ret ()
      | Some client \<Rightarrow>
          block [
            logger LInfo ''Triggering tests for affected servers'' [] [get repository ''full_name''],
            for_each (\<lambda>server. logger LInfo ''Would trigger tests for server: ${server}'' [ret (Str server)] [])
              servers])"

definition handleMainBranchPush :: "octokit option \<Rightarrow> jsval \<Rightarrow> unit run" where
  "handleMainBranchPush octokit payload =
     and_then (get payload ''repository'') (\<lambda>repository.
     and_then (get payload ''commits'') (\<lambda>commits.
     and_then (logger LInfo ''Main branch push detected'' []
                 [get repository ''full_name'', get commits ''length'']) (\<lambda>_.
     and_then (getAffectedServers commits) (\<lambda>affectedServers.
     when_do (length affectedServers > 0)
       (block [
          logger LInfo ''Server packages affected by push'' [] [get repository ''full_name''],
          triggerServerTests octokit repository affectedServers])))))"

definition handleReleaseBranchPush :: "octokit option \<Rightarrow> jsval \<Rightarrow> unit run" where
  "handleReleaseBranchPush octokit payload =
     and_then (get payload ''repository'') (\<lambda>repository.
     and_then (get payload ''ref'') (\<lambda>ref.
     and_then (as_string ref) (\<lambda>r.
     (let branch = remove_first ''refs/heads/'' r; version = remove_first ''release/'' branch in
     and_then (logger LInfo ''Release branch push detected'' [] [get repository ''full_name'']) (\<lambda>_.
     (case octokit of
        None \<Rightarrow> ret ()
      | Some client \<Rightarrow>
          try_catch
            (block [
               and_then (request_api client ''actions.createWorkflowDispatch''
                  [(''owner'', gets repository [''owner'', ''login'']),
                   (''repo'', get repository ''name''),
                   (''workflow_id'', ret (Str ''release.yml'')),
                   (''ref'', ret (Str branch))]) (\<lambda>_. ret ()),
               logger LInfo ''Triggered release workflow'' [] []])
            (\<lambda>error. logger LError ''Failed to trigger release workflow'' [] [])))))))"

definition importantFiles :: "string list" where
  "importantFiles = [''package.json'', ''pyproject.toml'', ''.github/workflows/'', ''README.md'']"

definition checkForImportantFileChanges :: "jsval \<Rightarrow> unit run" where
  "checkForImportantFileChanges payload =
     and_then (get payload ''commits'') (\<lambda>commits.
     and_then (get payload ''repository'') (\<lambda>repository.
     and_then (iterate commits) (\<lambda>cs.
     for_each (\<lambda>commit.
         and_then (changedFiles commit) (\<lambda>files.
         and_then (filter_of (\<lambda>file. some_of (\<lambda>important. js_includes file important) importantFiles) files)
           (\<lambda>importantChanges.
         when_do (length importantChanges > 0)
           (logger LInfo ''Important files changed in commit'' []
              [get commit ''id'', get repository ''full_name'']))))
       cs)))"

definition PushHandler_handle :: "octokit option \<Rightarrow> jsval \<Rightarrow> unit run" where
  "PushHandler_handle octokit payload =
     and_then (get payload ''repository'') (\<lambda>repository.
     and_then (get payload ''ref'') (\<lambda>ref.
     and_then (get payload ''commits'') (\<lambda>commits.
     and_then (get payload ''pusher'') (\<lambda>pusher.
     and_then (as_string ref) (\<lambda>r.
     (let branch = remove_first ''refs/heads/'' r in
     block [
       logger LInfo ''Processing push event'' []
         [get repository ''full_name'', get commits ''length'', get pusher ''name''],
       when_do (branch = ''main'' \<or> branch = ''master'') (handleMainBranchPush octokit payload),
       when_do (startsWith branch ''release/'') (handleReleaseBranchPush octokit payload),
       checkForImportantFileChanges payload]))))))"

section \<open>PullRequestHandler\<close>

definition getAffectedServersFromPaths :: "jsval list \<Rightarrow> string list run" where
  "getAffectedServersFromPaths paths = add_servers paths []"

text \<open>\<^verbatim>\<open>const { data: files } = await ...; files.map(file => file.filename)\<close>.\<close>

definition filenames :: "jsval \<Rightarrow> jsval list run" where
  "filenames response =
     and_then (get response ''data'') (\<lambda>files.
     and_then (as_array files) (\<lambda>fs.
     eval_list (map (\<lambda>file. get file ''filename'') fs)))"

definition listFiles :: "octokit \<Rightarrow> jsval \<Rightarrow> jsval \<Rightarrow> jsval run" where
  "listFiles client repository pullRequest =
     request_api client ''pulls.listFiles''
       [(''owner'', gets repository [''owner'', ''login'']),
        (''repo'', get repository ''name''),
        (''pull_number'', get pullRequest ''number'')]"

definition addLabelsBasedOnChanges :: "octokit option \<Rightarrow> jsval \<Rightarrow> jsval \<Rightarrow> unit run" where
  "addLabelsBasedOnChanges octokit repository pullRequest =
     (case octokit of
        None \<Rightarrow> ret ()
      | Some client \<Rightarrow>
          try_catch
            (and_then (listFiles client repository pullRequest) (\<lambda>response.
             and_then (filenames response) (\<lambda>changedPaths.
             and_then (some_of (\<lambda>path. and_then (as_string path) (\<lambda>p. ret (endsWith p ''.md'')))
                         changedPaths) (\<lambda>documentation.
             and_then (some_of (\<lambda>path. js_includes path ''.github/workflows'') changedPaths) (\<lambda>cicd.
             and_then (getAffectedServersFromPaths changedPaths) (\<lambda>affectedServers.
             and_then (some_of (\<lambda>path. and_then (js_includes path ''package.json'') (\<lambda>b.
                                  if b then ret True else js_includes path ''pyproject.toml''))
                         changedPaths) (\<lambda>dependencies.
             (let labels =
                    (if documentation then [''documentation''] else []) @
                    (if cicd then [''ci/cd''] else []) @
                    map (\<lambda>server. ''server:'' @ server) affectedServers @
                    (if dependencies then [''dependencies''] else [])
              in when_do (length labels > 0)
                   (block [
                      and_then (request_api client ''issues.addLabels''
                         [(''owner'', gets repository [''owner'', ''login'']),
                          (''repo'', get repository ''name''),
                          (''issue_number'', get pullRequest ''number''),
                          (''labels'', ret (Arr (map Str labels)))]) (\<lambda>_. ret ()),
                      logger LInfo ''Added labels to PR'' [] [get pullRequest ''number'']])))))))))
            (\<lambda>error. logger LError ''Failed to add labels to PR'' [] [get pullRequest ''number'']))"

definition affectedServersComment :: "string list \<Rightarrow> string" where
  "affectedServersComment affectedServers =
     [CHR 0xF0, CHR 0x9F, CHR 0x94, CHR 0x8D] @ '' **Affected Servers**: '' @
     join '', '' (map (\<lambda>s. [CHR 0x60] @ s @ [CHR 0x60]) affectedServers) @ newline @ newline @
     ''This PR modifies the following server packages. Please ensure appropriate testing is performed.''"

definition checkAffectedServers :: "octokit option \<Rightarrow> jsval \<Rightarrow> jsval \<Rightarrow> unit run" where
  "checkAffectedServers octokit repository pullRequest =
     (case octokit of
        None \<Rightarrow> ret ()
      | Some client \<Rightarrow>
          try_catch
            (and_then (listFiles client repository pullRequest) (\<lambda>response.
             and_then (filenames response) (\<lambda>changedPaths.
             and_then (getAffectedServersFromPaths changedPaths) (\<lambda>affectedServers.
             when_do (length affectedServers > 0)
               (block [
                  logger LInfo ''PR affects server packages'' [] [get pullRequest ''number''],
                  and_then (request_api client ''issues.createComment''
                     [(''owner'', gets repository [''owner'', ''login'']),
                      (''repo'', get repository ''name''),
                      (''issue_number'', get pullRequest ''number''),
                      (''body'', ret (Str (affectedServersComment affectedServers)))]) (\<lambda>_. ret ())])))))
            (\<lambda>error. logger LError ''Failed to check affected servers'' [] [get pullRequest ''number'']))"

definition welcomeComment :: "string \<Rightarrow> string" where
  "welcomeComment login =
     [CHR 0xF0, CHR 0x9F, CHR 0x91, CHR 0x8B] @
     '' Welcome to the Model Context Protocol servers repository, @'' @ login @ ''!'' @ newline @ newline @
     ''Thank you for your first contribution! Here are a few things to keep in mind:'' @ newline @ newline @
     ''- '' @ [CHR 0xF0, CHR 0x9F, CHR 0x93, CHR 0x8B] @
     '' Please ensure your PR follows our [contribution guidelines](CONTRIBUTING.md)'' @ newline @
     ''- '' @ [CHR 0xF0, CHR 0x9F, CHR 0xA7, CHR 0xAA] @
     '' Run tests locally before pushing: '' @ [CHR 0x60] @ ''npm test'' @ [CHR 0x60] @ newline @
     ''- '' @ [CHR 0xF0, CHR 0x9F, CHR 0x93, CHR 0x9D] @
     '' Update documentation if you'' @ [CHR 0x27] @ ''re adding new features'' @ newline @
     ''- '' @ [CHR 0xF0, CHR 0x9F, CHR 0x8F, CHR 0xB7, CHR 0xEF, CHR 0xB8, CHR 0x8F] @
     '' I'' @ [CHR 0x27] @ ''ve automatically added some labels based on the files you'' @ [CHR 0x27] @
     ''ve changed'' @ newline @ newline @
     ''A maintainer will review your PR soon. Thanks for contributing to MCP! '' @
     [CHR 0xF0, CHR 0x9F, CHR 0x9A, CHR 0x80]"

definition addWelcomeComment :: "octokit option \<Rightarrow> jsval \<Rightarrow> jsval \<Rightarrow> unit run" where
  "addWelcomeComment octokit repository pullRequest =
     (case octokit of
        None \<Rightarrow> ret ()
      | Some client \<Rightarrow>
          try_catch
            (and_then (request_api client ''pulls.list''
                [(''owner'', gets repository [''owner'', ''login'']),
                 (''repo'', get repository ''name''),
                 (''creator'', gets pullRequest [''user'', ''login'']),
                 (''state'', ret (Str ''all''))]) (\<lambda>response.
             and_then (get response ''data'') (\<lambda>contributions.
             and_then (get contributions ''length'') (\<lambda>n.
             when_do (n = Num 1)
               (and_then (gets pullRequest [''user'', ''login'']) (\<lambda>login.
                and_then (to_string login) (\<lambda>name.
                block [
                  and_then (request_api client ''issues.createComment''
                     [(''owner'', gets repository [''owner'', ''login'']),
                      (''repo'', get repository ''name''),
                      (''issue_number'', get pullRequest ''number''),
                      (''body'', ret (Str (welcomeComment name)))]) (\<lambda>_. ret ()),
                  logger LInfo ''Added welcome comment for first-time contributor'' []
                    [get pullRequest ''number'', gets pullRequest [''user'', ''login'']]])))))))
            (\<lambda>error. logger LError ''Failed to add welcome comment'' [] [get pullRequest ''number'']))"

definition requestReviewers :: "octokit option \<Rightarrow> jsval \<Rightarrow> jsval \<Rightarrow> unit run" where
  "requestReviewers octokit repository pullRequest =
     (case octokit of
        None \<Rightarrow> ret ()
      | Some client \<Rightarrow>
          logger LInfo ''Would assign reviewers for PR'' []
            [get pullRequest ''number'', get repository ''full_name''])"

definition handlePROpened :: "octokit option \<Rightarrow> jsval \<Rightarrow> unit run" where
  "handlePROpened octokit payload =
     and_then (get payload ''pull_request'') (\<lambda>pull_request.
     and_then (get payload ''repository'') (\<lambda>repository.
     block [
       logger LInfo ''New pull request opened'' []
         [get repository ''full_name'', get pull_request ''number'', gets pull_request [''user'', ''login'']],
       addLabelsBasedOnChanges octokit repository pull_request,
       checkAffectedServers octokit repository pull_request,
       addWelcomeComment octokit repository pull_request]))"

definition handlePRSynchronized :: "octokit option \<Rightarrow> jsval \<Rightarrow> unit run" where
  "handlePRSynchronized octokit payload =
     and_then (get payload ''pull_request'') (\<lambda>pull_request.
     and_then (get payload ''repository'') (\<lambda>repository.
     block [
       logger LInfo ''Pull request synchronized (new commits)'' []
         [get repository ''full_name'', get pull_request ''number''],
       checkAffectedServers octokit repository pull_request]))"

definition handlePRMerged :: "jsval \<Rightarrow> unit run" where
  "handlePRMerged payload =
     and_then (get payload ''pull_request'') (\<lambda>pull_request.
     and_then (get payload ''repository'') (\<lambda>repository.
     and_then (logger LInfo ''Pull request merged'' []
                 [get repository ''full_name'', get pull_request ''number'',
                  gets pull_request [''base'', ''ref'']]) (\<lambda>_.
     and_then (gets pull_request [''base'', ''ref'']) (\<lambda>base_ref.
     when_do (base_ref = Str ''main'')
       (logger LInfo ''PR merged to main branch, considering release impact'' [] [])))))"

definition handlePRClosed :: "jsval \<Rightarrow> unit run" where
  "handlePRClosed payload =
     and_then (get payload ''pull_request'') (\<lambda>pull_request.
     and_then (get payload ''repository'') (\<lambda>repository.
     and_then (get pull_request ''merged'') (\<lambda>merged.
     block [
       logger LInfo ''Pull request ${merged ? merged : closed}''
         [ret (Str (if truthy merged then ''merged'' else ''closed''))]
         [get repository ''full_name'', get pull_request ''number''],
       when_do (truthy merged) (handlePRMerged payload)])))"

definition handlePRReadyForReview :: "octokit option \<Rightarrow> jsval \<Rightarrow> unit run" where
  "handlePRReadyForReview octokit payload =
     and_then (get payload ''pull_request'') (\<lambda>pull_request.
     and_then (get payload ''repository'') (\<lambda>repository.
     block [
       logger LInfo ''Pull request ready for review'' []
         [get repository ''full_name'', get pull_request ''number''],
       requestReviewers octokit repository pull_request]))"

definition PullRequestHandler_handle :: "octokit option \<Rightarrow> jsval \<Rightarrow> unit run" where
  "PullRequestHandler_handle octokit payload =
     and_then (get payload ''action'') (\<lambda>action.
     and_then (get payload ''pull_request'') (\<lambda>pull_request.
     and_then (get payload ''repository'') (\<lambda>repository.
     block [
       logger LInfo ''Processing pull request event'' []
         [get repository ''full_name'', get pull_request ''number'', get pull_request ''title'',
          gets pull_request [''user'', ''login'']],
       (if action = Str ''opened'' then handlePROpened octokit payload
        else if action = Str ''synchronize'' then handlePRSynchronized octokit payload
        else if action = Str ''closed'' then handlePRClosed payload
        else if action = Str ''ready_for_review'' then handlePRReadyForReview octokit payload
        else logger LDebug ''Unhandled PR action: ${action}'' [ret action] [])])))"

section \<open>IssuesHandler\<close>

definition handleIssueClosed :: "jsval \<Rightarrow> unit run" where
  "handleIssueClosed payload =
     and_then (get payload ''issue'') (\<lambda>issue.
     and_then (get payload ''repository'') (\<lambda>repository.
     logger LInfo ''Issue closed'' []
       [get repository ''full_name'', get issue ''number'', get issue ''state_reason'']))"

definition handleIssueLabeled :: "jsval \<Rightarrow> unit run" where
  "handleIssueLabeled payload =
     and_then (get payload ''issue'') (\<lambda>issue.
     and_then (get payload ''label'') (\<lambda>label.
     and_then (get payload ''repository'') (\<lambda>repository.
     logger LInfo ''Issue labeled'' []
       [get repository ''full_name'', get issue ''number'', get label ''name''])))"

definition handleIssueAssigned :: "jsval \<Rightarrow> unit run" where
  "handleIssueAssigned payload =
     and_then (get payload ''issue'') (\<lambda>issue.
     and_then (get payload ''assignee'') (\<lambda>assignee.
     and_then (get payload ''repository'') (\<lambda>repository.
     logger LInfo ''Issue assigned'' []
       [get repository ''full_name'', get issue ''number'', get assignee ''login''])))"

text \<open>\<^verbatim>\<open>issue.title.toLowerCase()\<close> and \<^verbatim>\<open>(issue.body || '').toLowerCase()\<close>.\<close>

definition issue_title :: "jsval \<Rightarrow> string run" where
  "issue_title issue =
     and_then (get issue ''title'') (\<lambda>t. and_then (as_string t) (\<lambda>s. ret (toLowerCase s)))"

definition issue_body :: "jsval \<Rightarrow> string run" where
  "issue_body issue =
     and_then (get issue ''body'') (\<lambda>b.
     and_then (as_string (or_else b (Str []))) (\<lambda>s. ret (toLowerCase s)))"

definition any_includes :: "string \<Rightarrow> string list \<Rightarrow> bool" where
  "any_includes s subs = (\<exists>sub \<in> set subs. includes_str s sub)"

definition autoLabelIssue :: "octokit option \<Rightarrow> jsval \<Rightarrow> jsval \<Rightarrow> unit run" where
  "autoLabelIssue octokit repository issue =
     (case octokit of
        None \<Rightarrow> ret ()
      | Some client \<Rightarrow>
          and_then (issue_title issue) (\<lambda>title.
          and_then (issue_body issue) (\<lambda>body.
          (let labels =
                 (if any_includes title [''bug'', ''error'', ''issue''] \<or>
                     any_includes body [''bug'', ''error'', ''broken''] then [''bug''] else []) @
                 (if any_includes title [''feature'', ''enhancement'', ''add''] \<or>
                     any_includes body [''feature request'', ''enhancement''] then [''enhancement''] else []) @
                 (if any_includes title [''doc'', ''readme''] \<or>
                     any_includes body [''documentation'', ''docs''] then [''documentation''] else []) @
                 (if any_includes title [''question'', ''how to''] \<or>
                     any_includes body [''question''] \<or> any_includes title [''?''] then [''question''] else [])
           in when_do (length labels > 0)
                (try_catch
                   (block [
                      and_then (request_api client ''issues.addLabels''
                         [(''owner'', gets repository [''owner'', ''login'']),
                          (''repo'', get repository ''name''),
                          (''issue_number'', get issue ''number''),
                          (''labels'', ret (Arr (map Str labels)))]) (\<lambda>_. ret ()),
                      logger LInfo ''Auto-labeled issue'' [] [get issue ''number'']])
                   (\<lambda>error. logger LError ''Failed to auto-label issue'' [] []))))))"

definition issueWelcomeComment :: "string \<Rightarrow> string" where
  "issueWelcomeComment login =
     [CHR 0xF0, CHR 0x9F, CHR 0x91, CHR 0x8B] @
     '' Welcome to the Model Context Protocol servers repository, @'' @ login @ ''!'' @ newline @ newline @
     ''Thank you for opening your first issue! Here are a few things to help us help you:'' @ newline @ newline @
     ''- '' @ [CHR 0xF0, CHR 0x9F, CHR 0x90, CHR 0x9B] @
     '' **Bug reports**: Please include steps to reproduce, expected behavior, and actual behavior'' @ newline @
     ''- '' @ [CHR 0xF0, CHR 0x9F, CHR 0x92, CHR 0xA1] @
     '' **Feature requests**: Please describe the use case and why this would be valuable'' @ newline @
     ''- '' @ [CHR 0xE2, CHR 0x9D, CHR 0x93] @
     '' **Questions**: Check our [documentation](README.md) first, and feel free to ask for clarification'' @
     newline @ newline @
     ''A maintainer will review your issue soon. Thanks for contributing to MCP! '' @
     [CHR 0xF0, CHR 0x9F, CHR 0x9A, CHR 0x80]"

definition addIssueWelcomeComment :: "octokit option \<Rightarrow> jsval \<Rightarrow> jsval \<Rightarrow> unit run" where
  "addIssueWelcomeComment octokit repository issue =
     (case octokit of
        None \<Rightarrow> ret ()
      | Some client \<Rightarrow>
          try_catch
            (and_then (request_api client ''issues.listForRepo''
                [(''owner'', gets repository [''owner'', ''login'']),
                 (''repo'', get repository ''name''),
                 (''creator'', gets issue [''user'', ''login'']),
                 (''state'', ret (Str ''all''))]) (\<lambda>response.
             and_then (get response ''data'') (\<lambda>userIssues.
             and_then (get userIssues ''length'') (\<lambda>n.
             when_do (n = Num 1)
               (and_then (gets issue [''user'', ''login'']) (\<lambda>login.
                and_then (to_string login) (\<lambda>name.
                block [
                  and_then (request_api client ''issues.createComment''
                     [(''owner'', gets repository [''owner'', ''login'']),
                      (''repo'', get repository ''name''),
                      (''issue_number'', get issue ''number''),
                      (''body'', ret (Str (issueWelcomeComment name)))]) (\<lambda>_. ret ()),
                  logger LInfo ''Added welcome comment for first-time issue creator'' []
                    [get issue ''number'', gets issue [''user'', ''login'']]])))))))
            (\<lambda>error. logger LError ''Failed to add welcome comment to issue'' [] []))"

text \<open>
  The regular expression \<^verbatim>\<open>/server[:\s]+(\w+)/\<close>: the first capture group of the
  leftmost match. The two character classes are disjoint, so the greedy runs are the
  maximal ones. The class \<^verbatim>\<open>\s\<close> holds the white space and line terminators of the
  language: six ASCII characters, U+00A0, U+1680, U+2000 to U+200A, U+2028, U+2029,
  U+202F, U+205F, U+3000 and U+FEFF, here by their bytes. \<open>sep_width\<close> is the number of
  bytes of the separator at the head of a string, 0 when there is none.
\<close>

definition white_space :: "string list" where
  "white_space =
     [[CHR 0x09], [CHR 0x0A], [CHR 0x0B], [CHR 0x0C], [CHR 0x0D], [CHR 0x20],
      [CHR 0xC2, CHR 0xA0], [CHR 0xE1, CHR 0x9A, CHR 0x80],
      [CHR 0xE2, CHR 0x80, CHR 0x80], [CHR 0xE2, CHR 0x80, CHR 0x81], [CHR 0xE2, CHR 0x80, CHR 0x82],
      [CHR 0xE2, CHR 0x80, CHR 0x83], [CHR 0xE2, CHR 0x80, CHR 0x84], [CHR 0xE2, CHR 0x80, CHR 0x85],
      [CHR 0xE2, CHR 0x80, CHR 0x86], [CHR 0xE2, CHR 0x80, CHR 0x87], [CHR 0xE2, CHR 0x80, CHR 0x88],
      [CHR 0xE2, CHR 0x80, CHR 0x89], [CHR 0xE2, CHR 0x80, CHR 0x8A],
      [CHR 0xE2, CHR 0x80, CHR 0xA8], [CHR 0xE2, CHR 0x80, CHR 0xA9], [CHR 0xE2, CHR 0x80, CHR 0xAF],
      [CHR 0xE2, CHR 0x81, CHR 0x9F], [CHR 0xE3, CHR 0x80, CHR 0x80], [CHR 0xEF, CHR 0xBB, CHR 0xBF]]"

definition sep_width :: "string \<Rightarrow> nat" where
  "sep_width s =
     (case filter (\<lambda>w. take (length w) s = w) ([CHR '':''] # white_space) of
        [] \<Rightarrow> 0
      | w # ws \<Rightarrow> length w)"

text \<open>The rest of a string after the separators at its head; \<open>k\<close> bytes are skipped first.\<close>

fun after_seps :: "nat \<Rightarrow> string \<Rightarrow> string" where
  "after_seps k [] = []"
| "after_seps k (c # cs) =
     (if 0 < k then after_seps (k - 1) cs
      else if 0 < sep_width (c # cs) then after_seps (sep_width (c # cs) - 1) cs
      else c # cs)"

definition is_word :: "char \<Rightarrow> bool" where
  "is_word c =
     (char_between CHR ''a'' CHR ''z'' c \<or> char_between CHR ''A'' CHR ''Z'' c \<or>
      char_between CHR ''0'' CHR ''9'' c \<or> c = CHR ''_'')"

definition match_server_here :: "string \<Rightarrow> string option" where
  "match_server_here s =
     (if take 6 s = ''server'' then
        (let rest = drop 6 s; word = takeWhile is_word (after_seps 0 rest)
         in if 0 < sep_width rest \<and> word \<noteq> [] then Some word else None)
      else None)"

fun match_server :: "string \<Rightarrow> string option" where
  "match_server [] = None"
| "match_server (c # cs) =
     (case match_server_here (c # cs) of
        Some word \<Rightarrow> Some word
      | None \<Rightarrow> match_server cs)"

definition addLabel_caught :: "octokit \<Rightarrow> jsval \<Rightarrow> jsval \<Rightarrow> string \<Rightarrow> string \<Rightarrow> unit run" where
  "addLabel_caught client repository issue label_name failure =
     try_catch
       (and_then (request_api client ''issues.addLabels''
           [(''owner'', gets repository [''owner'', ''login'']),
            (''repo'', get repository ''name''),
            (''issue_number'', get issue ''number''),
            (''labels'', ret (Arr [Str label_name]))]) (\<lambda>_. ret ()))
       (\<lambda>error. logger LError failure [] [])"

definition categorizeIssue :: "octokit option \<Rightarrow> jsval \<Rightarrow> jsval \<Rightarrow> unit run" where
  "categorizeIssue octokit repository issue =
     and_then (issue_title issue) (\<lambda>title.
     and_then (issue_body issue) (\<lambda>body.
     block [
       (case (case match_server title of Some w \<Rightarrow> Some w | None \<Rightarrow> match_server body) of
          None \<Rightarrow> ret ()
        | Some serverName \<Rightarrow>
            block [
              logger LInfo ''Issue relates to specific server'' [] [get issue ''number''],
              (case octokit of
                 None \<Rightarrow> ret ()
               | Some client \<Rightarrow>
                   addLabel_caught client repository issue (''server:'' @ serverName)
                     ''Failed to add server label'')]),
       when_do (any_includes title [''urgent'', ''critical''] \<or> any_includes body [''urgent'', ''critical''])
         (block [
            logger LInfo ''High priority issue detected'' [] [get issue ''number''],
            (case octokit of
               None \<Rightarrow> ret ()
             | Some client \<Rightarrow>
                 addLabel_caught client repository issue ''priority:high''
                   ''Failed to add priority label'')])]))"

definition handleIssueOpened :: "octokit option \<Rightarrow> jsval \<Rightarrow> unit run" where
  "handleIssueOpened octokit payload =
     and_then (get payload ''issue'') (\<lambda>issue.
     and_then (get payload ''repository'') (\<lambda>repository.
     block [
       logger LInfo ''New issue opened'' []
         [get repository ''full_name'', get issue ''number'', gets issue [''user'', ''login'']],
       autoLabelIssue octokit repository issue,
       addIssueWelcomeComment octokit repository issue,
       categorizeIssue octokit repository issue]))"

definition IssuesHandler_handle :: "octokit option \<Rightarrow> jsval \<Rightarrow> unit run" where
  "IssuesHandler_handle octokit payload =
     and_then (get payload ''action'') (\<lambda>action.
     and_then (get payload ''issue'') (\<lambda>issue.
     and_then (get payload ''repository'') (\<lambda>repository.
     block [
       logger LInfo ''Processing issues event'' []
         [get repository ''full_name'', get issue ''number'', get issue ''title'',
          gets issue [''user'', ''login'']],
       (if action = Str ''opened'' then handleIssueOpened octokit payload
        else if action = Str ''closed'' then handleIssueClosed payload
        else if action = Str ''labeled'' then handleIssueLabeled payload
        else if action = Str ''assigned'' then handleIssueAssigned payload
        else logger LDebug ''Unhandled issue action: ${action}'' [ret action] [])])))"

section \<open>ReleaseHandler\<close>

definition notifyNewRelease :: "jsval \<Rightarrow> jsval \<Rightarrow> unit run" where
  "notifyNewRelease repository release =
     and_then (logger LInfo ''Notifying about new release'' []
                 [get repository ''full_name'', get release ''tag_name'', get release ''prerelease'']) (\<lambda>_.
     and_then (get release ''prerelease'') (\<lambda>prerelease.
     if \<not> truthy prerelease then
       logger LInfo ''Stable release published - triggering notifications'' [] []
     else logger LInfo ''Pre-release published - limited notifications'' [] []))"

text \<open>\<^verbatim>\<open>getNpmPackages\<close> and \<^verbatim>\<open>getPyPIPackages\<close> return fixed lists.\<close>

definition getNpmPackages :: "string list" where
  "getNpmPackages = [''@modelcontextprotocol/server-webhooks'']"

definition getPyPIPackages :: "string list" where
  "getPyPIPackages = []"

definition verifyNpmPackages :: "octokit option \<Rightarrow> jsval \<Rightarrow> jsval \<Rightarrow> unit run" where
  "verifyNpmPackages octokit repository release =
     (case octokit of
        None \<Rightarrow> ret ()
      | Some client \<Rightarrow>
          try_catch
            (for_each (\<lambda>packageName.
                 logger LInfo ''Verifying npm package: ${packageName}'' [ret (Str packageName)]
                   [get release ''tag_name''])
               getNpmPackages)
            (\<lambda>error. logger LError ''Failed to verify npm packages'' [] []))"

definition verifyPyPIPackages :: "octokit option \<Rightarrow> jsval \<Rightarrow> jsval \<Rightarrow> unit run" where
  "verifyPyPIPackages octokit repository release =
     (case octokit of
        None \<Rightarrow> ret ()
      | Some client \<Rightarrow>
          try_catch
            (for_each (\<lambda>packageName.
                 logger LInfo ''Verifying PyPI package: ${packageName}'' [ret (Str packageName)]
                   [get release ''tag_name''])
               getPyPIPackages)
            (\<lambda>error. logger LError ''Failed to verify PyPI packages'' [] []))"

definition updatePackageRegistries :: "octokit option \<Rightarrow> jsval \<Rightarrow> jsval \<Rightarrow> unit run" where
  "updatePackageRegistries octokit repository release =
     block [
       logger LInfo ''Checking package registry updates'' []
         [get repository ''full_name'', get release ''tag_name''],
       verifyNpmPackages octokit repository release,
       verifyPyPIPackages octokit repository release]"

text \<open>
  \<^verbatim>\<open>releases.length > 1 ? releases[1].tag_name : 'HEAD~10'\<close>, on the array the client
  returns.
\<close>

definition getPreviousReleaseTag :: "octokit option \<Rightarrow> jsval \<Rightarrow> jsval run" where
  "getPreviousReleaseTag octokit repository =
     (case octokit of
        None \<Rightarrow> ret (Str ''HEAD~10'')
      | Some client \<Rightarrow>
          try_catch
            (and_then (request_api client ''repos.listReleases''
                [(''owner'', gets repository [''owner'', ''login'']),
                 (''repo'', get repository ''name''),
                 (''per_page'', ret (Num 2))]) (\<lambda>response.
             and_then (get response ''data'') (\<lambda>releases.
             and_then (as_array releases) (\<lambda>rs.
             if length rs > 1 then get (rs ! 1) ''tag_name'' else ret (Str ''HEAD~10'')))))
            (\<lambda>error.
               and_then (logger LError ''Failed to get previous release tag'' [] []) (\<lambda>_.
               ret (Str ''HEAD~10''))))"

text \<open>
  \<^verbatim>\<open>commits.commits?.length\<close> and
  \<^verbatim>\<open>new Set(commits.commits?.map(c => c.author?.login)).size\<close>: the values are only
  logged; evaluating them can throw.
\<close>

definition metrics_of :: "jsval \<Rightarrow> unit run" where
  "metrics_of commits =
     and_then (get commits ''commits'') (\<lambda>cs.
     and_then (opt_get cs ''length'') (\<lambda>_.
     if cs = Undefined \<or> cs = Null then ret ()
     else
       and_then (as_array cs) (\<lambda>xs.
       and_then (eval_list (map (\<lambda>c. and_then (get c ''author'') (\<lambda>a. opt_get a ''login'')) xs)) (\<lambda>_.
       ret ()))))"

definition generateReleaseMetrics :: "octokit option \<Rightarrow> jsval \<Rightarrow> jsval \<Rightarrow> unit run" where
  "generateReleaseMetrics octokit repository release =
     and_then (logger LInfo ''Generating release metrics'' []
                 [get repository ''full_name'', get release ''tag_name'']) (\<lambda>_.
     (case octokit of
        None \<Rightarrow> ret ()
      | Some client \<Rightarrow>
          try_catch
            (and_then (request_api client ''repos.compareCommits''
                [(''owner'', gets repository [''owner'', ''login'']),
                 (''repo'', get repository ''name''),
                 (''base'', getPreviousReleaseTag octokit repository),
                 (''head'', get release ''tag_name'')]) (\<lambda>response.
             and_then (get response ''data'') (\<lambda>commits.
             logger LInfo ''Release metrics calculated'' [] [and_then (metrics_of commits) (\<lambda>_. ret Undefined)])))
            (\<lambda>error. logger LError ''Failed to generate release metrics'' [] [])))"

definition requiredSections :: "string list" where
  "requiredSections = [''## What'' @ [CHR 0x27] @ ''s Changed'', ''## New Features'', ''## Bug Fixes'']"

definition warning_sign :: string where
  "warning_sign = [CHR 0xE2, CHR 0x9A, CHR 0xA0, CHR 0xEF, CHR 0xB8, CHR 0x8F]"

definition validateReleaseNotes :: "jsval \<Rightarrow> jsval \<Rightarrow> unit run" where
  "validateReleaseNotes repository release =
     and_then (get release ''body'') (\<lambda>body.
     (let releaseNotes = or_else body (Str []) in
     and_then (logger LInfo ''Validating release notes'' []
                 [get repository ''full_name'', get release ''tag_name'', get releaseNotes ''length'']) (\<lambda>_.
     and_then (filter_of (\<lambda>section. and_then (js_includes releaseNotes section) (\<lambda>b. ret (\<not> b)))
                 requiredSections) (\<lambda>missingSections.
     and_then (when_do (length missingSections > 0)
                 (logger LWarn ''Release notes missing recommended sections'' []
                    [get release ''tag_name''])) (\<lambda>_.
     and_then (as_string releaseNotes) (\<lambda>notes.
     when_do (includes_str (toLowerCase notes) ''breaking'' \<and> \<not> includes_str notes warning_sign)
       (logger LWarn ''Breaking changes detected but no warning emoji found'' []
          [get release ''tag_name''])))))))"

definition handleReleasePublished :: "octokit option \<Rightarrow> jsval \<Rightarrow> unit run" where
  "handleReleasePublished octokit payload =
     and_then (get payload ''release'') (\<lambda>release.
     and_then (get payload ''repository'') (\<lambda>repository.
     block [
       logger LInfo ''Release published'' []
         [get repository ''full_name'', get release ''tag_name'', get release ''prerelease''],
       notifyNewRelease repository release,
       updatePackageRegistries octokit repository release,
       generateReleaseMetrics octokit repository release]))"

definition handleReleaseCreated :: "jsval \<Rightarrow> unit run" where
  "handleReleaseCreated payload =
     and_then (get payload ''release'') (\<lambda>release.
     and_then (get payload ''repository'') (\<lambda>repository.
     block [
       logger LInfo ''Release created (draft)'' []
         [get repository ''full_name'', get release ''tag_name'', get release ''draft''],
       validateReleaseNotes repository release]))"

definition handleReleaseEdited :: "jsval \<Rightarrow> unit run" where
  "handleReleaseEdited payload =
     and_then (get payload ''release'') (\<lambda>release.
     and_then (get payload ''repository'') (\<lambda>repository.
     block [
       logger LInfo ''Release edited'' [] [get repository ''full_name'', get release ''tag_name''],
       validateReleaseNotes repository release]))"

definition handleReleaseDeleted :: "jsval \<Rightarrow> unit run" where
  "handleReleaseDeleted payload =
     and_then (get payload ''release'') (\<lambda>release.
     and_then (get payload ''repository'') (\<lambda>repository.
     logger LInfo ''Release deleted'' [] [get repository ''full_name'', get release ''tag_name'']))"

definition ReleaseHandler_handle :: "octokit option \<Rightarrow> jsval \<Rightarrow> unit run" where
  "ReleaseHandler_handle octokit payload =
     and_then (get payload ''action'') (\<lambda>action.
     and_then (get payload ''release'') (\<lambda>release.
     and_then (get payload ''repository'') (\<lambda>repository.
     block [
       logger LInfo ''Processing release event'' []
         [get repository ''full_name'', opt_get release ''tag_name'', opt_get release ''name'',
          opt_get release ''prerelease''],
       (if action = Str ''published'' then handleReleasePublished octokit payload
        else if action = Str ''created'' then handleReleaseCreated payload
        else if action = Str ''edited'' then handleReleaseEdited payload
        else if action = Str ''deleted'' then handleReleaseDeleted payload
        else logger LDebug ''Unhandled release action: ${action}'' [ret action] [])])))"

section \<open>WorkflowHandler\<close>

text \<open>
  \<^verbatim>\<open>calculateDuration\<close> is arithmetic on the times of two \<^verbatim>\<open>Date\<close> objects; it does
  not throw on any argument and its result is only logged. The model evaluates its two
  arguments.
\<close>

definition calculateDuration :: "jsval \<Rightarrow> jsval run list" where
  "calculateDuration workflow_run = [get workflow_run ''created_at'', get workflow_run ''updated_at'']"

definition trackWorkflowMetrics :: "jsval \<Rightarrow> jsval \<Rightarrow> string \<Rightarrow> unit run" where
  "trackWorkflowMetrics repository workflowRun status =
     logger LInfo ''Workflow metrics'' []
       ([get repository ''full_name'', get workflowRun ''name'', get workflowRun ''head_branch''] @
        calculateDuration workflowRun @ [gets workflowRun [''actor'', ''login'']])"

definition handleWorkflowRequested :: "jsval \<Rightarrow> unit run" where
  "handleWorkflowRequested payload =
     and_then (get payload ''workflow_run'') (\<lambda>workflow_run.
     and_then (get payload ''repository'') (\<lambda>repository.
     block [
       logger LInfo ''Workflow requested'' []
         [get repository ''full_name'', get workflow_run ''name'', get workflow_run ''head_branch'',
          gets workflow_run [''actor'', ''login'']],
       trackWorkflowMetrics repository workflow_run ''requested'']))"

definition handleWorkflowInProgress :: "jsval \<Rightarrow> unit run" where
  "handleWorkflowInProgress payload =
     and_then (get payload ''workflow_run'') (\<lambda>workflow_run.
     and_then (get payload ''repository'') (\<lambda>repository.
     block [
       logger LInfo ''Workflow in progress'' []
         [get repository ''full_name'', get workflow_run ''name'', get workflow_run ''head_branch''],
       trackWorkflowMetrics repository workflow_run ''in_progress'']))"

definition handleReleaseWorkflowSuccess :: "jsval \<Rightarrow> unit run" where
  "handleReleaseWorkflowSuccess payload =
     and_then (get payload ''workflow_run'') (\<lambda>workflow_run.
     and_then (get payload ''repository'') (\<lambda>repository.
     logger LInfo ''Release workflow completed successfully'' []
       [get repository ''full_name'', get workflow_run ''head_branch'']))"

definition handleTestWorkflowSuccess :: "jsval \<Rightarrow> unit run" where
  "handleTestWorkflowSuccess payload =
     and_then (get payload ''workflow_run'') (\<lambda>workflow_run.
     and_then (get payload ''repository'') (\<lambda>repository.
     logger LInfo ''Test workflow completed successfully'' []
       [get repository ''full_name'', get workflow_run ''name'', get workflow_run ''head_branch'']))"

definition handleWorkflowSuccess :: "jsval \<Rightarrow> unit run" where
  "handleWorkflowSuccess payload =
     and_then (get payload ''workflow_run'') (\<lambda>workflow_run.
     and_then (get payload ''repository'') (\<lambda>repository.
     and_then (logger LInfo ''Workflow succeeded'' []
                 [get repository ''full_name'', get workflow_run ''name'',
                  get workflow_run ''head_branch'']) (\<lambda>_.
     and_then (get workflow_run ''name'') (\<lambda>name.
     block [
       (if name = Str ''Automatic Release Creation'' then handleReleaseWorkflowSuccess payload
        else if name = Str ''TypeScript'' \<or> name = Str ''Python'' then handleTestWorkflowSuccess payload
        else logger LDebug ''No specific handler for successful workflow: ${workflow_run.name}''
               [get workflow_run ''name''] []),
       trackWorkflowMetrics repository workflow_run ''success'']))))"

text \<open>
  \<^verbatim>\<open>job.steps?.filter(step => step.conclusion === 'failure').length || 0\<close>: a missing
  \<^verbatim>\<open>steps\<close> ends the whole optional chain.
\<close>

definition failed_steps :: "jsval \<Rightarrow> jsval run" where
  "failed_steps job =
     and_then (get job ''steps'') (\<lambda>steps.
     if steps = Undefined \<or> steps = Null then ret (Num 0)
     else
       and_then (as_array steps) (\<lambda>ss.
       and_then (filter_of (\<lambda>step. and_then (get step ''conclusion'') (\<lambda>c. ret (c = Str ''failure''))) ss)
         (\<lambda>failed. ret (Num (int (length failed))))))"

definition analyzeWorkflowFailure :: "octokit option \<Rightarrow> jsval \<Rightarrow> jsval \<Rightarrow> unit run" where
  "analyzeWorkflowFailure octokit repository workflowRun =
     (case octokit of
        None \<Rightarrow> ret ()
      | Some client \<Rightarrow>
          try_catch
            (and_then (request_api client ''actions.listJobsForWorkflowRun''
                [(''owner'', gets repository [''owner'', ''login'']),
                 (''repo'', get repository ''name''),
                 (''run_id'', get workflowRun ''id'')]) (\<lambda>response.
             and_then (get response ''data'') (\<lambda>jobs.
             and_then (get jobs ''jobs'') (\<lambda>jobs_jobs.
             and_then (as_array jobs_jobs) (\<lambda>js.
             and_then (filter_of (\<lambda>job. and_then (get job ''conclusion'') (\<lambda>c. ret (c = Str ''failure''))) js)
               (\<lambda>failedJobs.
             block [
               logger LError ''Workflow failure analysis'' []
                 ([get workflowRun ''name'', gets jobs [''jobs'', ''length'']] @
                  map (\<lambda>job. get job ''name'') failedJobs),
               for_each (\<lambda>job.
                   logger LError ''Failed job: ${job.name}'' [get job ''name'']
                     [get job ''id'', failed_steps job])
                 failedJobs]))))))
            (\<lambda>error. logger LError ''Failed to analyze workflow failure'' [] []))"

definition criticalWorkflows :: "string list" where
  "criticalWorkflows = [''Automatic Release Creation'', ''Security Scan'']"

definition notifyWorkflowFailure :: "jsval \<Rightarrow> jsval \<Rightarrow> unit run" where
  "notifyWorkflowFailure repository workflowRun =
     and_then (get workflowRun ''name'') (\<lambda>name.
     and_then (when_do (name \<in> set (map Str criticalWorkflows))
                 (logger LError ''Critical workflow failure detected'' []
                    [get repository ''full_name'', get workflowRun ''name'',
                     get workflowRun ''head_branch''])) (\<lambda>_.
     and_then (get workflowRun ''head_branch'') (\<lambda>head_branch.
     when_do (head_branch = Str ''main'' \<or> head_branch = Str ''master'')
       (logger LError ''Main branch workflow failure'' []
          [get repository ''full_name'', get workflowRun ''name'']))))"

definition handleWorkflowFailure :: "octokit option \<Rightarrow> jsval \<Rightarrow> unit run" where
  "handleWorkflowFailure octokit payload =
     and_then (get payload ''workflow_run'') (\<lambda>workflow_run.
     and_then (get payload ''repository'') (\<lambda>repository.
     block [
       logger LError ''Workflow failed'' []
         [get repository ''full_name'', get workflow_run ''name'', get workflow_run ''head_branch'',
          gets workflow_run [''actor'', ''login'']],
       analyzeWorkflowFailure octokit repository workflow_run,
       notifyWorkflowFailure repository workflow_run,
       trackWorkflowMetrics repository workflow_run ''failure'']))"

definition handleWorkflowCancelled :: "jsval \<Rightarrow> unit run" where
  "handleWorkflowCancelled payload =
     and_then (get payload ''workflow_run'') (\<lambda>workflow_run.
     and_then (get payload ''repository'') (\<lambda>repository.
     block [
       logger LInfo ''Workflow cancelled'' []
         [get repository ''full_name'', get workflow_run ''name'', get workflow_run ''head_branch''],
       trackWorkflowMetrics repository workflow_run ''cancelled'']))"

definition handleWorkflowTimedOut :: "jsval \<Rightarrow> unit run" where
  "handleWorkflowTimedOut payload =
     and_then (get payload ''workflow_run'') (\<lambda>workflow_run.
     and_then (get payload ''repository'') (\<lambda>repository.
     block [
       logger LWarn ''Workflow timed out'' []
         ([get repository ''full_name'', get workflow_run ''name'', get workflow_run ''head_branch''] @
          calculateDuration workflow_run),
       trackWorkflowMetrics repository workflow_run ''timeout'']))"

definition handleWorkflowCompleted :: "octokit option \<Rightarrow> jsval \<Rightarrow> unit run" where
  "handleWorkflowCompleted octokit payload =
     and_then (get payload ''workflow_run'') (\<lambda>workflow_run.
     and_then (get payload ''repository'') (\<lambda>repository.
     and_then (logger LInfo ''Workflow completed'' []
                 ([get repository ''full_name'', get workflow_run ''name'',
                   get workflow_run ''conclusion'', get workflow_run ''head_branch''] @
                  calculateDuration workflow_run)) (\<lambda>_.
     and_then (get workflow_run ''conclusion'') (\<lambda>conclusion.
     if conclusion = Str ''success'' then handleWorkflowSuccess payload
     else if conclusion = Str ''failure'' then handleWorkflowFailure octokit payload
     else if conclusion = Str ''cancelled'' then handleWorkflowCancelled payload
     else if conclusion = Str ''timed_out'' then handleWorkflowTimedOut payload
     else ret ()))))"

definition WorkflowHandler_handle :: "octokit option \<Rightarrow> jsval \<Rightarrow> unit run" where
  "WorkflowHandler_handle octokit payload =
     and_then (get payload ''action'') (\<lambda>action.
     and_then (get payload ''workflow_run'') (\<lambda>workflow_run.
     and_then (get payload ''repository'') (\<lambda>repository.
     block [
       logger LInfo ''Processing workflow event'' []
         [get repository ''full_name'', get workflow_run ''name'', get workflow_run ''status'',
          get workflow_run ''conclusion'', get workflow_run ''head_branch''],
       (if action = Str ''completed'' then handleWorkflowCompleted octokit payload
        else if action = Str ''requested'' then handleWorkflowRequested payload
        else if action = Str ''in_progress'' then handleWorkflowInProgress payload
        else logger LDebug ''Unhandled workflow action: ${action}'' [ret action] [])])))"

section \<open>RepositoryHandler\<close>

text \<open>
  Each action logs its line and calls one set-up function, which logs another; both read
  \<^verbatim>\<open>repository.full_name\<close>.
\<close>

definition repository_step :: "jsval \<Rightarrow> string \<Rightarrow> jsval run list \<Rightarrow> string \<Rightarrow> unit run" where
  "repository_step payload message extra setup_message =
     and_then (get payload ''repository'') (\<lambda>repository.
     block [
       logger LInfo message [] (get repository ''full_name'' # extra),
       logger LInfo setup_message [] [get repository ''full_name'']])"

definition handleRepositoryCreated :: "jsval \<Rightarrow> unit run" where
  "handleRepositoryCreated payload =
     and_then (get payload ''repository'') (\<lambda>repository.
     block [
       logger LInfo ''Repository created'' []
         [get repository ''full_name'', get repository ''private'', get repository ''description''],
       logger LInfo ''Setting up new repository'' [] [get repository ''full_name'']])"

definition handleRepositoryDeleted :: "jsval \<Rightarrow> unit run" where
  "handleRepositoryDeleted payload =
     repository_step payload ''Repository deleted'' [] ''Cleaning up deleted repository''"

definition handleRepositoryArchived :: "jsval \<Rightarrow> unit run" where
  "handleRepositoryArchived payload =
     repository_step payload ''Repository archived'' [] ''Handling repository archival''"

definition handleRepositoryUnarchived :: "jsval \<Rightarrow> unit run" where
  "handleRepositoryUnarchived payload =
     repository_step payload ''Repository unarchived'' [] ''Handling repository reactivation''"

definition handleRepositoryPublicized :: "jsval \<Rightarrow> unit run" where
  "handleRepositoryPublicized payload =
     repository_step payload ''Repository made public'' [] ''Setting up public repository''"

definition handleRepositoryPrivatized :: "jsval \<Rightarrow> unit run" where
  "handleRepositoryPrivatized payload =
     repository_step payload ''Repository made private'' [] ''Setting up private repository''"

definition RepositoryHandler_handle :: "octokit option \<Rightarrow> jsval \<Rightarrow> unit run" where
  "RepositoryHandler_handle octokit payload =
     and_then (get payload ''action'') (\<lambda>action.
     and_then (get payload ''repository'') (\<lambda>repository.
     block [
       logger LInfo ''Processing repository event'' [] [get repository ''full_name''],
       (if action = Str ''created'' then handleRepositoryCreated payload
        else if action = Str ''deleted'' then handleRepositoryDeleted payload
        else if action = Str ''archived'' then handleRepositoryArchived payload
        else if action = Str ''unarchived'' then handleRepositoryUnarchived payload
        else if action = Str ''publicized'' then handleRepositoryPublicized payload
        else if action = Str ''privatized'' then handleRepositoryPrivatized payload
        else logger LDebug ''Unhandled repository action: ${action}'' [ret action] [])]))"

section \<open>WebhookHandlers\<close>

text \<open>
  The object \<^verbatim>\<open>handlers\<close> holds the six handler objects; each is used through its
  \<^verbatim>\<open>handle\<close> method only. The constructor builds them from the API client.
\<close>

record handlers =
  pushHandler :: "jsval \<Rightarrow> unit run"
  pullRequestHandler :: "jsval \<Rightarrow> unit run"
  releaseHandler :: "jsval \<Rightarrow> unit run"
  workflowHandler :: "jsval \<Rightarrow> unit run"
  issuesHandler :: "jsval \<Rightarrow> unit run"
  repositoryHandler :: "jsval \<Rightarrow> unit run"

definition WebhookHandlers :: "octokit option \<Rightarrow> handlers" where
  "WebhookHandlers octokit =
     \<lparr>pushHandler = PushHandler_handle octokit,
      pullRequestHandler = PullRequestHandler_handle octokit,
      releaseHandler = ReleaseHandler_handle octokit,
      workflowHandler = WorkflowHandler_handle octokit,
      issuesHandler = IssuesHandler_handle octokit,
      repositoryHandler = RepositoryHandler_handle octokit\<rparr>"

text \<open>A call \<^verbatim>\<open>this.xHandler.handle(payload)\<close>: the call is recorded, then the body runs.\<close>

definition call_handle :: "handler_name \<Rightarrow> (jsval \<Rightarrow> unit run) \<Rightarrow> jsval \<Rightarrow> unit run" where
  "call_handle name handle payload = and_then (emit (Handle name payload)) (\<lambda>_. handle payload)"

definition onPush :: "handlers \<Rightarrow> jsval \<Rightarrow> unit run" where
  "onPush h payload = call_handle PushHandler (pushHandler h) payload"

definition onPullRequest :: "handlers \<Rightarrow> jsval \<Rightarrow> unit run" where
  "onPullRequest h payload = call_handle PullRequestHandler (pullRequestHandler h) payload"

definition onRelease :: "handlers \<Rightarrow> jsval \<Rightarrow> unit run" where
  "onRelease h payload = call_handle ReleaseHandler (releaseHandler h) payload"

definition onWorkflowRun :: "handlers \<Rightarrow> jsval \<Rightarrow> unit run" where
  "onWorkflowRun h payload = call_handle WorkflowHandler (workflowHandler h) payload"

definition onIssues :: "handlers \<Rightarrow> jsval \<Rightarrow> unit run" where
  "onIssues h payload = call_handle IssuesHandler (issuesHandler h) payload"

definition onRepository :: "handlers \<Rightarrow> jsval \<Rightarrow> unit run" where
  "onRepository h payload = call_handle RepositoryHandler (repositoryHandler h) payload"

text \<open>
  A header read from the request, as a value: \<^verbatim>\<open>undefined\<close> when it was not sent,
  and otherwise the string of its code units, which \<open>Buffer_from\<close> writes in UTF-8.
\<close>

fun header_value :: "string option \<Rightarrow> jsval" where
  "header_value None = Undefined"
| "header_value (Some s) = Str (Buffer_from s)"

definition handleEvent :: "handlers \<Rightarrow> string option \<Rightarrow> jsval \<Rightarrow> string option \<Rightarrow> unit run" where
  "handleEvent h eventName payload deliveryId =
     and_then (logger LInfo ''Processing ${eventName} event'' [ret (header_value eventName)]
                 [and_then (get payload ''repository'') (\<lambda>r. opt_get r ''full_name''),
                  get payload ''action'']) (\<lambda>_.
     try_catch
       (if eventName = Some ''push'' then onPush h payload
        else if eventName = Some ''pull_request'' then onPullRequest h payload
        else if eventName = Some ''release'' then onRelease h payload
        else if eventName = Some ''workflow_run'' then onWorkflowRun h payload
        else if eventName = Some ''issues'' then onIssues h payload
        else if eventName = Some ''repository'' then onRepository h payload
        else logger LWarn ''Unhandled event type: ${eventName}'' [ret (header_value eventName)] [])
       (\<lambda>error.
          and_then (logger LError ''Error handling ${eventName} event'' [ret (header_value eventName)] [])
            (\<lambda>_. throw error)))"

section \<open>The webhooks object of the library\<close>

text \<open>
  \<^verbatim>\<open>webhooks\<close> is an instance of \<^verbatim>\<open>Webhooks\<close> from \<^verbatim>\<open>@octokit/webhooks\<close>. What the
  library documents, and the model follows:
  \<^item> \<^verbatim>\<open>webhooks.on(name, listener)\<close> registers a listener for the events of that name;
  \<^item> \<^verbatim>\<open>webhooks.verifyAndReceive({id, name, signature, payload})\<close> checks the signature
    of the payload string against the secret, parses the payload, and then runs the
    listeners registered for \<open>name\<close>, each on the event object
    \<^verbatim>\<open>{id, name, payload}\<close>; its promise rejects when the signature does not match or
    when a listener throws, after the callbacks of \<^verbatim>\<open>webhooks.onError\<close> have run.
  The server registers its six listeners and one error callback at start-up.
\<close>

type_synonym listener = "jsval \<Rightarrow> unit run"

definition registrations :: "handlers \<Rightarrow> (string \<times> listener) list" where
  "registrations h =
     [(''push'', onPush h),
      (''pull_request'', onPullRequest h),
      (''release'', onRelease h),
      (''workflow_run'', onWorkflowRun h),
      (''issues'', onIssues h),
      (''repository'', onRepository h)]"

definition onError :: "unit run" where
  "onError = logger LError ''Webhook error'' [] []"

definition event_object :: "string option \<Rightarrow> string \<Rightarrow> jsval \<Rightarrow> jsval" where
  "event_object delivery_id name payload =
     Obj [(''id'', header_value delivery_id), (''name'', header_value (Some name)), (''payload'', payload)]"

definition library_verify :: "hmac_fn \<Rightarrow> string \<Rightarrow> string \<Rightarrow> string option \<Rightarrow> bool" where
  "library_verify hmac secret payload signature =
     (case signature of
        None \<Rightarrow> False
      | Some s \<Rightarrow>
          s \<noteq> [] \<and> payload \<noteq> [] \<and>
          Buffer_from s = Buffer_from (expectedSignature hmac secret payload))"

fun is_primitive :: "jsval \<Rightarrow> bool" where
  "is_primitive (Arr xs) = False"
| "is_primitive (Obj kvs) = False"
| "is_primitive x = True"

text \<open>
  \<^verbatim>\<open>receive\<close>: an event needs a name and a payload; the listeners are looked up with
  the payload's action (\<^verbatim>\<open>"action" in payload\<close>, a \<^verbatim>\<open>TypeError\<close> on a primitive
  value); an event without listeners resolves; errors of listeners are collected into an
  \<^verbatim>\<open>AggregateError\<close>.
\<close>

definition receive ::
  "(string \<times> listener) list \<Rightarrow> string option \<Rightarrow> string option \<Rightarrow> jsval \<Rightarrow> unit run" where
  "receive listeners delivery_id name payload =
     (case name of
        None \<Rightarrow> throw (AggregateError [LibraryError ''Event name not passed''])
      | Some n \<Rightarrow>
          if n = [] then throw (AggregateError [LibraryError ''Event name not passed''])
          else if \<not> truthy payload then throw (AggregateError [LibraryError ''Event payload not passed''])
          else if is_primitive payload then throw TypeError
          else
            (case map_of listeners n of
               None \<Rightarrow> ret ()
             | Some listener \<Rightarrow>
                 try_catch (listener (event_object delivery_id n payload))
                   (\<lambda>error. and_then onError (\<lambda>_. throw (AggregateError [error])))))"

text \<open>\<^verbatim>\<open>JSON.parse\<close> is the runtime's: \<open>None\<close> where it throws a \<^verbatim>\<open>SyntaxError\<close>.\<close>

type_synonym parse_fn = "string \<Rightarrow> jsval option"

definition verifyAndReceive ::
  "hmac_fn \<Rightarrow> parse_fn \<Rightarrow> string \<Rightarrow> (string \<times> listener) list \<Rightarrow>
   string option \<Rightarrow> string option \<Rightarrow> string option \<Rightarrow> string \<Rightarrow> unit run" where
  "verifyAndReceive hmac JSON_parse secret listeners delivery_id name signature payload =
     (if \<not> library_verify hmac secret payload signature then
        and_then onError (\<lambda>_.
        throw (AggregateError [LibraryError ''signature does not match event payload and secret'']))
      else
        (case JSON_parse payload of
           None \<Rightarrow> throw (AggregateError [SyntaxError])
         | Some p \<Rightarrow> receive listeners delivery_id name p))"

section \<open>The endpoint\<close>

text \<open>
  \<^verbatim>\<open>req.body.toString()\<close>: the decoded text of a buffer; on the empty object it is
  the conversion of an object to a string (the route handler is not reached with it: the
  middleware has answered or thrown).
\<close>

fun body_toString :: "body \<Rightarrow> string" where
  "body_toString (Buffer bytes) = Buffer_toString bytes"
| "body_toString Empty_object = ''[object Object]''"

text \<open>
  The route handler of \<^verbatim>\<open>POST /webhook\<close>, run once \<^verbatim>\<open>verifySignature\<close> has called
  \<^verbatim>\<open>next()\<close>. \<^verbatim>\<open>JSON.parse\<close> and the first \<^verbatim>\<open>Logger.info\<close> stand before the
  \<^verbatim>\<open>try\<close>. Both \<^verbatim>\<open>JSON.parse\<close> and the library receive \<^verbatim>\<open>req.body.toString()\<close>,
  the decoded text and not the bytes.
\<close>

definition webhook_route ::
  "hmac_fn \<Rightarrow> parse_fn \<Rightarrow> string \<Rightarrow> handlers \<Rightarrow> request \<Rightarrow> response run" where
  "webhook_route hmac JSON_parse webhookSecret h req =
     (let eventName = hdr_event req; deliveryId = hdr_delivery req in
      (case JSON_parse (body_toString (req_body req)) of
         None \<Rightarrow> throw SyntaxError
       | Some payload \<Rightarrow>
           and_then (logger LInfo ''Received ${eventName} event'' [ret (header_value eventName)]
                       [and_then (get payload ''repository'') (\<lambda>r. opt_get r ''full_name'')]) (\<lambda>_.
           try_catch
             (and_then (verifyAndReceive hmac JSON_parse webhookSecret (registrations h)
                          deliveryId eventName (hdr_signature req) (body_toString (req_body req))) (\<lambda>_.
              and_then (handleEvent h eventName payload deliveryId) (\<lambda>_.
              ret (Response 200 ''message'' ''Webhook processed successfully''))))
             (\<lambda>error.
                and_then (logger LError ''Error processing webhook'' [] []) (\<lambda>_.
                ret (Response 500 ''error'' ''Internal server error''))))))"

text \<open>
  One request to \<^verbatim>\<open>POST /webhook\<close>: the body parser, the middleware, then the route
  handler. The result is what the request did and how it ended.
\<close>

definition post_webhook ::
  "hmac_fn \<Rightarrow> parse_fn \<Rightarrow> string \<Rightarrow> handlers \<Rightarrow> request \<Rightarrow> effect list \<times> outcome" where
  "post_webhook hmac JSON_parse webhookSecret h req =
     (case express_raw req of
        Reply r \<Rightarrow> ([], Responded r)
      | Throws e \<Rightarrow> ([], Uncaught e)
      | Next \<Rightarrow>
          (case verifySignature hmac webhookSecret req of
             Reply r \<Rightarrow> ([], Responded r)
           | Throws e \<Rightarrow> ([], Uncaught e)
           | Next \<Rightarrow>
               (case webhook_route hmac JSON_parse webhookSecret h req of
                  (effects, Inl e) \<Rightarrow> (effects, Uncaught e)
                | (effects, Inr r) \<Rightarrow> (effects, Responded r))))"


text \<open>The calls of \<^verbatim>\<open>handle\<close> among the effects, and the requests to the API.\<close>

fun handle_calls :: "effect list \<Rightarrow> (handler_name \<times> jsval) list" where
  "handle_calls [] = []"
| "handle_calls (Handle name arg # es) = (name, arg) # handle_calls es"
| "handle_calls (e # es) = handle_calls es"

fun api_calls :: "effect list \<Rightarrow> (string \<times> jsval) list" where
  "api_calls [] = []"
| "api_calls (Api method params # es) = (method, params) # api_calls es"
| "api_calls (e # es) = api_calls es"

section \<open>Notions used to state the properties\<close>

text \<open>
  A path of the form \<^verbatim>\<open>src/s/...\<close>: it starts with \<^verbatim>\<open>src/\<close>, the non-empty
  directory name \<open>s\<close> and a slash.
\<close>

definition src_server :: "string \<Rightarrow> string \<Rightarrow> bool" where
  "src_server path s =
     (s \<noteq> [] \<and> CHR ''/'' \<notin> set s \<and>
      take (length (''src/'' @ s @ ''/'')) path = ''src/'' @ s @ ''/'')"

text \<open>
  The paths a commit object lists under one of its keys: none when the key is missing or
  \<^verbatim>\<open>null\<close>, the strings of the array otherwise. \<open>None\<close> when the value is not an array
  of strings.
\<close>

fun strings_of :: "jsval list \<Rightarrow> string list option" where
  "strings_of [] = Some []"
| "strings_of (Str s # xs) = (case strings_of xs of None \<Rightarrow> None | Some ss \<Rightarrow> Some (s # ss))"
| "strings_of (x # xs) = None"

definition listed_paths :: "jsval \<Rightarrow> string \<Rightarrow> string list option" where
  "listed_paths commit key =
     (case commit of
        Obj kvs \<Rightarrow>
          (case map_of kvs key of
             None \<Rightarrow> Some []
           | Some Null \<Rightarrow> Some []
           | Some (Arr xs) \<Rightarrow> strings_of xs
           | Some v \<Rightarrow> None)
      | v \<Rightarrow> None)"

definition commit_paths :: "jsval \<Rightarrow> string list option" where
  "commit_paths commit =
     (case (listed_paths commit ''added'', listed_paths commit ''modified'', listed_paths commit ''removed'') of
        (Some a, Some m, Some r) \<Rightarrow> Some (a @ m @ r)
      | other \<Rightarrow> None)"

text \<open>
  UTF-8 text: a sequence of well-formed byte sequences of one to four bytes. The second
  byte of a sequence is bounded by its first byte, so that overlong forms, surrogates and
  values above U+10FFFF are excluded.
\<close>

definition byte_in :: "nat \<Rightarrow> nat \<Rightarrow> char \<Rightarrow> bool" where
  "byte_in lo hi c = (lo \<le> of_char c \<and> of_char c \<le> hi)"

definition second_low :: "char \<Rightarrow> nat" where
  "second_low a =
     (if of_char a = (0xE0::nat) then 0xA0 else if of_char a = (0xF0::nat) then 0x90 else 0x80)"

definition second_high :: "char \<Rightarrow> nat" where
  "second_high a =
     (if of_char a = (0xED::nat) then 0x9F else if of_char a = (0xF4::nat) then 0x8F else 0xBF)"

fun utf8_text :: "string \<Rightarrow> bool" where
  "utf8_text [] = True"
| "utf8_text [a] = byte_in 0x00 0x7F a"
| "utf8_text [a, b] =
     (if byte_in 0x00 0x7F a then utf8_text [b]
      else byte_in 0xC2 0xDF a \<and> byte_in 0x80 0xBF b)"
| "utf8_text [a, b, c] =
     (if byte_in 0x00 0x7F a then utf8_text [b, c]
      else if byte_in 0xC2 0xDF a then byte_in 0x80 0xBF b \<and> utf8_text [c]
      else byte_in 0xE0 0xEF a \<and> byte_in (second_low a) (second_high a) b \<and> byte_in 0x80 0xBF c)"
| "utf8_text (a # b # c # d # s) =
     (if byte_in 0x00 0x7F a then utf8_text (b # c # d # s)
      else if byte_in 0xC2 0xDF a then byte_in 0x80 0xBF b \<and> utf8_text (c # d # s)
      else if byte_in 0xE0 0xEF a then
        byte_in (second_low a) (second_high a) b \<and> byte_in 0x80 0xBF c \<and> utf8_text (d # s)
      else byte_in 0xF0 0xF4 a \<and> byte_in (second_low a) (second_high a) b \<and>
           byte_in 0x80 0xBF c \<and> byte_in 0x80 0xBF d \<and> utf8_text s)"


text \<open>The six event types with a registered handler.\<close>

definition registered_events :: "string list" where
  "registered_events = [''push'', ''pull_request'', ''release'', ''workflow_run'', ''issues'', ''repository'']"

text \<open>
  The handler that the \<^verbatim>\<open>switch\<close> of \<^verbatim>\<open>handleEvent\<close> selects for an event type, and
  its \<^verbatim>\<open>handle\<close> method in a table of handlers.
\<close>

definition handler_of :: "string \<Rightarrow> handler_name option" where
  "handler_of eventName =
     map_of [(''push'', PushHandler), (''pull_request'', PullRequestHandler), (''release'', ReleaseHandler),
             (''workflow_run'', WorkflowHandler), (''issues'', IssuesHandler),
             (''repository'', RepositoryHandler)] eventName"

fun handle_method :: "handlers \<Rightarrow> handler_name \<Rightarrow> jsval \<Rightarrow> unit run" where
  "handle_method h PushHandler = pushHandler h"
| "handle_method h PullRequestHandler = pullRequestHandler h"
| "handle_method h ReleaseHandler = releaseHandler h"
| "handle_method h WorkflowHandler = workflowHandler h"
| "handle_method h IssuesHandler = issuesHandler h"
| "handle_method h RepositoryHandler = repositoryHandler h"


text \<open>
  The fields of the payload that the \<^verbatim>\<open>handle\<close> method of a handler destructures and
  then dereferences, whatever the action.
\<close>

fun dereferenced_fields :: "handler_name \<Rightarrow> string list" where
  "dereferenced_fields PushHandler = [''repository'', ''ref'', ''commits'', ''pusher'']"
| "dereferenced_fields PullRequestHandler = [''repository'', ''pull_request'']"
| "dereferenced_fields ReleaseHandler = [''repository'']"
| "dereferenced_fields WorkflowHandler = [''repository'', ''workflow_run'']"
| "dereferenced_fields IssuesHandler = [''repository'', ''issue'']"
| "dereferenced_fields RepositoryHandler = [''repository'']"

fun is_log :: "effect \<Rightarrow> bool" where
  "is_log (Log lvl msg vs) = True"
| "is_log e = False"

text \<open>A run that makes no request to the platform API.\<close>

definition no_request :: "'a run \<Rightarrow> bool" where
  "no_request m = (api_calls (fst m) = [])"

section \<open>Sample deliveries\<close>

text \<open>
  The push and pull request deliveries of \<^verbatim>\<open>tests/webhook.test.ts\<close> and a few more,
  used to run the model on concrete inputs. The theorems hold for every HMAC function and
  every parser; where a theorem is run on a sample, \<open>sample_hmac\<close> stands in for
  HMAC-SHA-256 and \<open>sample_parse\<close> gives the values \<^verbatim>\<open>JSON.parse\<close> returns on the
  sample bodies (it throws on \<open>truncated_body\<close>).
\<close>

definition sample_hmac :: hmac_fn where
  "sample_hmac key message = word_of_nat (length key + 256 * length message)"

definition test_secret :: string where
  "test_secret = ''test-secret''"

text \<open>As \<^verbatim>\<open>createSignature\<close> of the tests signs a body.\<close>

definition signed_delivery :: "hmac_fn \<Rightarrow> string \<Rightarrow> string \<Rightarrow> string \<Rightarrow> request" where
  "signed_delivery hmac secret eventName payload =
     \<lparr>hdr_signature = Some (expectedSignature hmac secret payload),
      hdr_event = Some eventName,
      hdr_delivery = Some ''test-delivery-id'',
      content_type_json = True,
      raw_body = Some payload\<rparr>"

definition test_repository :: jsval where
  "test_repository =
     Obj [(''full_name'', Str ''test/repo''), (''owner'', Obj [(''login'', Str ''test'')]), (''name'', Str ''repo'')]"

definition push_body :: string where
  \<open>push_body = ''{"ref":"refs/heads/main","repository":{"full_name":"test/repo","owner":{"login":"test"},"name":"repo"},"commits":[{"id":"abc123","added":["src/test.ts"],"modified":[],"removed":[]}],"pusher":{"name":"testuser"}}''\<close>

definition pushPayload :: jsval where
  "pushPayload =
     Obj [(''ref'', Str ''refs/heads/main''),
          (''repository'', test_repository),
          (''commits'', Arr [Obj [(''id'', Str ''abc123''), (''added'', Arr [Str ''src/test.ts'']),
                                  (''modified'', Arr []), (''removed'', Arr [])]]),
          (''pusher'', Obj [(''name'', Str ''testuser'')])]"

definition pull_request_body :: string where
  \<open>pull_request_body = ''{"action":"opened","repository":{"full_name":"test/repo","owner":{"login":"test"},"name":"repo"},"pull_request":{"number":1,"title":"Test PR","user":{"login":"testuser"}}}''\<close>

definition mockPayload :: jsval where
  "mockPayload =
     Obj [(''action'', Str ''opened''),
          (''repository'', test_repository),
          (''pull_request'', Obj [(''number'', Num 1), (''title'', Str ''Test PR''),
                                  (''user'', Obj [(''login'', Str ''testuser'')])])]"

definition ping_body :: string where
  \<open>ping_body = ''{"zen":"Keep it logically awesome.","hook_id":1}''\<close>

definition pingPayload :: jsval where
  "pingPayload = Obj [(''zen'', Str ''Keep it logically awesome.''), (''hook_id'', Num 1)]"

text \<open>A push delivery without \<^verbatim>\<open>ref\<close>.\<close>

definition incomplete_push_body :: string where
  \<open>incomplete_push_body = ''{"repository":{"full_name":"test/repo","owner":{"login":"test"},"name":"repo"},"commits":[],"pusher":{"name":"testuser"}}''\<close>

definition incompletePushPayload :: jsval where
  "incompletePushPayload =
     Obj [(''repository'', test_repository), (''commits'', Arr []),
          (''pusher'', Obj [(''name'', Str ''testuser'')])]"

definition truncated_body :: string where
  \<open>truncated_body = ''{"ref":"refs/heads/main",''\<close>

text \<open>The JSON text \<^verbatim>\<open>null\<close>.\<close>

definition null_body :: string where
  "null_body = ''null''"

text \<open>A ping of 102410 bytes, over the limit of the body parser, and one with a byte FF.\<close>

definition padding :: string where
  "padding = replicate 102400 CHR ''a''"

definition oversized_body :: string where
  \<open>oversized_body = ''{"zen":"'' @ padding @ ''"}''\<close>

definition non_utf8_body :: string where
  \<open>non_utf8_body = ''{"zen":"'' @ [CHR 0xFF] @ ''"}''\<close>

definition sample_parse :: parse_fn where
  "sample_parse text =
     map_of [(push_body, pushPayload), (pull_request_body, mockPayload), (ping_body, pingPayload),
             (incomplete_push_body, incompletePushPayload), (null_body, Null),
             (oversized_body, Obj [(''zen'', Str padding)]),
             (Buffer_toString non_utf8_body, Obj [(''zen'', Str replacement)])] text"

section \<open>Properties of the signature verifier\<close>

lemma length_hex_of: "length (hex_of k n) = k"
  by (induction k arbitrary: n) simp_all

lemma hexdigit_inj:
  assumes "hexdigit a = hexdigit b"
  shows "a mod 16 = b mod 16"
proof -
  have "\<forall>i<16. \<forall>j<16. ''0123456789abcdef'' ! i = ''0123456789abcdef'' ! j \<longrightarrow> i = (j::nat)"
    by (simp add: All_less_Suc numeral_eq_Suc)
  moreover have "a mod 16 < 16" "b mod 16 < 16" by simp_all
  ultimately show ?thesis
    using assms unfolding hexdigit_def by blast
qed

lemma hex_of_inj:
  "n < 16 ^ k \<Longrightarrow> m < 16 ^ k \<Longrightarrow> hex_of k n = hex_of k m \<Longrightarrow> n = m"
proof (induction k arbitrary: n m)
  case 0
  then show ?case by simp
next
  case (Suc k)
  have "n div 16 < 16 ^ k" "m div 16 < 16 ^ k"
    using Suc.prems(1,2) by (simp_all add: less_mult_imp_div_less mult.commute)
  moreover have e: "hex_of k (n div 16) = hex_of k (m div 16)" "hexdigit (n mod 16) = hexdigit (m mod 16)"
    using Suc.prems(3) by (simp_all add: length_hex_of)
  ultimately have d: "n div 16 = m div 16"
    using Suc.IH by blast
  have "n mod 16 mod 16 = m mod 16 mod 16"
    using e(2) by (rule hexdigit_inj)
  then have r: "n mod 16 = m mod 16" by simp
  have "n = 16 * (n div 16) + n mod 16" by simp
  also have "\<dots> = 16 * (m div 16) + m mod 16" by (simp only: d r)
  also have "\<dots> = m" by simp
  finally show ?case .
qed

lemma digest_hex_inj: "digest_hex v = digest_hex w \<Longrightarrow> v = w"
proof -
  assume h: "digest_hex v = digest_hex w"
  have "unat v < 2 ^ 256" "unat w < 2 ^ 256"
    using unsigned_less [of v] unsigned_less [of w] by simp_all
  moreover have "(2::nat) ^ 256 = 16 ^ 64" by simp
  ultimately have b: "unat v < 16 ^ 64" "unat w < 16 ^ 64" by simp_all
  have "hex_of 64 (unat v) = hex_of 64 (unat w)"
    using h by (simp only: digest_hex_def)
  with b have "unat v = unat w"
    by (rule hex_of_inj)
  then show ?thesis by (rule word_unat_eq_iff [THEN iffD2])
qed

lemma length_digest_hex: "length (digest_hex w) = 64"
  by (simp only: digest_hex_def length_hex_of)

lemma hexdigit_ascii: "of_char (hexdigit n) < (128::nat)"
proof -
  have "\<forall>i<16. of_char (''0123456789abcdef'' ! i) < (128::nat)"
    by (simp add: All_less_Suc numeral_eq_Suc)
  then show ?thesis
    by (simp add: hexdigit_def)
qed

lemma hex_of_ascii: "c \<in> set (hex_of k n) \<Longrightarrow> of_char c < (128::nat)"
  by (induction k arbitrary: n) (auto simp: hexdigit_ascii)

lemma Buffer_from_ascii: "(\<And>c. c \<in> set s \<Longrightarrow> of_char c < (128::nat)) \<Longrightarrow> Buffer_from s = s"
  by (induction s) (simp_all add: Buffer_from_def)

lemma Buffer_from_expected:
  "Buffer_from (expectedSignature hmac k b) = expectedSignature hmac k b"
proof (rule Buffer_from_ascii)
  fix c assume "c \<in> set (expectedSignature hmac k b)"
  then have "c \<in> set ''sha256='' \<or> c \<in> set (hex_of 64 (unat (hmac k b)))"
    by (simp add: expectedSignature_def digest_hex_def)
  then show "of_char c < (128::nat)"
    using hex_of_ascii by auto
qed

lemma length_expected: "length (expectedSignature hmac k b) = 71"
  by (simp add: expectedSignature_def length_digest_hex)

lemma expected_inj:
  "expectedSignature hmac k b = expectedSignature hmac k b' \<longleftrightarrow> hmac k b = hmac k b'"
  by (auto simp: expectedSignature_def dest: digest_hex_inj)

lemma expected_nonempty: "expectedSignature hmac k b \<noteq> []"
  by (simp add: expectedSignature_def)

text \<open>What the body parser does.\<close>

lemma req_body_Buffer:
  "raw_body req = Some b \<Longrightarrow> content_type_json req \<Longrightarrow> req_body req = Buffer b"
  by (simp add: req_body_def)

lemma express_raw_Next:
  "req_body req = Buffer b \<Longrightarrow> length b \<le> body_limit \<Longrightarrow> express_raw req = Next"
  by (simp add: express_raw_def)

lemma express_raw_too_large:
  "req_body req = Buffer b \<Longrightarrow> body_limit < length b \<Longrightarrow> express_raw req = Reply (Error_page 413)"
  by (simp add: express_raw_def)

lemma express_raw_skipped: "req_body req = Empty_object \<Longrightarrow> express_raw req = Next"
  by (simp add: express_raw_def)

lemma express_raw_cases: "express_raw req = Next \<or> express_raw req = Reply (Error_page 413)"
  by (simp add: express_raw_def split: body.splits)

text \<open>Decoding leaves ASCII text as it is.\<close>

lemma utf8_run_ascii:
  "(\<And>c. c \<in> set s \<Longrightarrow> of_char c < (128::nat)) \<Longrightarrow> utf8_run utf8_idle s = s"
  by (induction s) (simp_all add: utf8_idle_def utf8_step_def utf8_start_def)

lemma Buffer_toString_ascii:
  "(\<And>c. c \<in> set s \<Longrightarrow> of_char c < (128::nat)) \<Longrightarrow> Buffer_toString s = s"
  unfolding Buffer_toString_def by (rule utf8_run_ascii)

text \<open>Decoding leaves UTF-8 text as it is, whatever its characters.\<close>

lemma run_one:
  "byte_in 0x00 0x7F a \<Longrightarrow> utf8_run utf8_idle (a # s) = a # utf8_run utf8_idle s"
  by (simp add: utf8_idle_def utf8_step_def utf8_start_def byte_in_def)

lemma start_two:
  "byte_in 0xC2 0xDF a \<Longrightarrow> utf8_start a = (([a], 1, 0x80, 0xBF), [])"
  by (simp add: utf8_start_def byte_in_def)

lemma start_three:
  "byte_in 0xE0 0xEF a \<Longrightarrow> utf8_start a = (([a], 2, second_low a, second_high a), [])"
  by (auto simp: utf8_start_def byte_in_def second_low_def second_high_def)

lemma start_four:
  "byte_in 0xF0 0xF4 a \<Longrightarrow> utf8_start a = (([a], 3, second_low a, second_high a), [])"
  by (auto simp: utf8_start_def byte_in_def second_low_def second_high_def)

lemma byte_inD: "byte_in lo hi c \<Longrightarrow> lo \<le> of_char c \<and> of_char c \<le> hi"
  by (simp add: byte_in_def)

lemma run_two:
  assumes "byte_in 0xC2 0xDF a" and "byte_in 0x80 0xBF b"
  shows "utf8_run utf8_idle (a # b # s) = a # b # utf8_run utf8_idle s"
  using byte_inD [OF assms(2)]
  by (simp add: utf8_idle_def utf8_step_def start_two [OF assms(1)])

lemma run_three:
  assumes "byte_in 0xE0 0xEF a" and "byte_in (second_low a) (second_high a) b"
    and "byte_in 0x80 0xBF c"
  shows "utf8_run utf8_idle (a # b # c # s) = a # b # c # utf8_run utf8_idle s"
  using byte_inD [OF assms(2)] byte_inD [OF assms(3)]
  by (simp add: utf8_idle_def utf8_step_def start_three [OF assms(1)])

lemma run_four:
  assumes "byte_in 0xF0 0xF4 a" and "byte_in (second_low a) (second_high a) b"
    and "byte_in 0x80 0xBF c" and "byte_in 0x80 0xBF d"
  shows "utf8_run utf8_idle (a # b # c # d # s) = a # b # c # d # utf8_run utf8_idle s"
  using byte_inD [OF assms(2)] byte_inD [OF assms(3)] byte_inD [OF assms(4)]
  by (simp add: utf8_idle_def utf8_step_def start_four [OF assms(1)])

lemma run_Nil: "utf8_run utf8_idle [] = []"
  by (simp add: utf8_idle_def)

lemma utf8_run_text: "utf8_text s \<Longrightarrow> utf8_run utf8_idle s = s"
proof (induction s rule: utf8_text.induct)
  case 1
  then show ?case by (simp only: run_Nil)
next
  case (2 a)
  then show ?case by (simp add: run_one run_Nil del: utf8_run.simps)
next
  case (3 a b)
  then show ?case
    by (cases "byte_in 0x00 0x7F a") (simp_all add: run_one run_two run_Nil del: utf8_run.simps)
next
  case (4 a b c)
  then show ?case
    by (cases "byte_in 0x00 0x7F a"; cases "byte_in 0xC2 0xDF a")
       (simp_all add: run_one run_two run_three run_Nil del: utf8_run.simps)
next
  case (5 a b c d s)
  then show ?case
    by (cases "byte_in 0x00 0x7F a"; cases "byte_in 0xC2 0xDF a"; cases "byte_in 0xE0 0xEF a")
       (simp_all add: run_one run_two run_three run_four del: utf8_run.simps)
qed

lemma Buffer_toString_text: "utf8_text s \<Longrightarrow> Buffer_toString s = s"
  unfolding Buffer_toString_def by (rule utf8_run_text)

text \<open>What the middleware does, by cases on the header.\<close>

lemma verify_missing:
  "hdr_signature req = None \<or> hdr_signature req = Some [] \<Longrightarrow>
   verifySignature hmac k req = Reply (Response 401 ''error'' ''Missing signature'')"
  by (auto simp: verifySignature_def)

lemma verify_unparsed:
  "hdr_signature req = Some s \<Longrightarrow> s \<noteq> [] \<Longrightarrow> req_body req = Empty_object \<Longrightarrow>
   verifySignature hmac k req = Throws TypeError"
  by (simp add: verifySignature_def)

lemma verify_length_mismatch:
  "hdr_signature req = Some s \<Longrightarrow> s \<noteq> [] \<Longrightarrow> req_body req = Buffer b \<Longrightarrow>
   length (Buffer_from s) \<noteq> 71 \<Longrightarrow>
   verifySignature hmac k req = Throws RangeError"
  by (simp add: verifySignature_def timingSafeEqual_def Buffer_from_expected length_expected)

lemma verify_mismatch:
  "hdr_signature req = Some s \<Longrightarrow> s \<noteq> [] \<Longrightarrow> req_body req = Buffer b \<Longrightarrow>
   length (Buffer_from s) = 71 \<Longrightarrow> Buffer_from s \<noteq> expectedSignature hmac k b \<Longrightarrow>
   verifySignature hmac k req = Reply (Response 401 ''error'' ''Invalid signature'')"
  by (simp add: verifySignature_def timingSafeEqual_def Buffer_from_expected length_expected)

lemma Buffer_from_Nil: "Buffer_from [] = []"
  by (simp add: Buffer_from_def)

lemma verify_match:
  assumes "hdr_signature req = Some s" "req_body req = Buffer b"
    and "Buffer_from s = expectedSignature hmac k b"
  shows "verifySignature hmac k req = Next"
proof -
  have "s \<noteq> []"
    using assms(3) expected_nonempty [of hmac k b] Buffer_from_Nil by auto
  then show ?thesis
    using assms by (simp add: verifySignature_def timingSafeEqual_def Buffer_from_expected)
qed

lemma verify_Next_iff:
  "verifySignature hmac k req = Next \<longleftrightarrow>
   (\<exists>s b. hdr_signature req = Some s \<and> s \<noteq> [] \<and> req_body req = Buffer b \<and>
          Buffer_from s = Buffer_from (expectedSignature hmac k b))"
  by (auto simp: verifySignature_def timingSafeEqual_def
      split: option.splits sum.splits bool.splits body.splits)

lemma req_body_signed_delivery [simp]: "req_body (signed_delivery hmac k e b) = Buffer b"
  by (simp add: signed_delivery_def req_body_def)

lemma verify_signed_delivery: "verifySignature hmac k (signed_delivery hmac k e b) = Next"
  by (rule verify_match [where s = "expectedSignature hmac k b" and b = b])
     (simp_all add: signed_delivery_def req_body_def Buffer_from_expected)

text \<open>
  C2. A provided signature whose byte length differs from that of the computed
  \<^verbatim>\<open>sha256=<hex>\<close> string (71 bytes) is not answered with 401: \<^verbatim>\<open>timingSafeEqual\<close>
  throws a \<^verbatim>\<open>RangeError\<close>, which leaves the middleware uncaught. This holds for every
  request whose body the parser has read (content type \<^verbatim>\<open>application/json\<close>, within
  the limit). The test \<^verbatim>\<open>should reject requests with invalid signature\<close> sends
  \<^verbatim>\<open>sha256=invalid\<close> and expects 401.
\<close>

theorem length_mismatch_throws:
  "hdr_signature req = Some s \<Longrightarrow> s \<noteq> [] \<Longrightarrow>
   req_body req = Buffer b \<Longrightarrow> length b \<le> body_limit \<Longrightarrow>
   length (Buffer_from s) \<noteq> length (Buffer_from (expectedSignature hmac secret b)) \<Longrightarrow>
   verifySignature hmac secret req = Throws RangeError \<and>
   post_webhook hmac JSON_parse secret h req = ([], Uncaught RangeError)"
  by (simp add: post_webhook_def express_raw_Next verify_length_mismatch Buffer_from_expected
      length_expected)

lemma length_push_body: "length push_body = 211"
  by (simp add: push_body_def)

lemma length_pull_request_body: "length pull_request_body = 171"
  by (simp add: pull_request_body_def)

lemma length_ping_body: "length ping_body = 48"
  by (simp add: ping_body_def)

theorem length_mismatch_throws_witness:
  "post_webhook sample_hmac sample_parse test_secret (WebhookHandlers None)
     \<lparr>hdr_signature = Some ''sha256=invalid'', hdr_event = Some ''pull_request'',
      hdr_delivery = Some ''test-delivery-id'', content_type_json = True,
      raw_body = Some pull_request_body\<rparr>
   = ([], Uncaught RangeError)"
proof -
  let ?req = "\<lparr>hdr_signature = Some ''sha256=invalid'', hdr_event = Some ''pull_request'',
      hdr_delivery = Some ''test-delivery-id'', content_type_json = True,
      raw_body = Some pull_request_body\<rparr>"
  have a: "hdr_signature ?req = Some ''sha256=invalid''" "''sha256=invalid'' \<noteq> []"
    by simp_all
  have c: "req_body ?req = Buffer pull_request_body"
    by (simp add: req_body_def)
  have d: "length pull_request_body \<le> body_limit"
    by (simp add: length_pull_request_body body_limit_def)
  have "length (Buffer_from ''sha256=invalid'') = 14"
    by (simp add: Buffer_from_def)
  then have b: "length (Buffer_from ''sha256=invalid'') \<noteq>
      length (Buffer_from (expectedSignature sample_hmac test_secret pull_request_body))"
    by (simp only: Buffer_from_expected length_expected)
  show ?thesis
    using length_mismatch_throws [OF a c d b, of sample_parse "WebhookHandlers None"] by simp
qed

text \<open>
  C4, as stated, fails: a request without the \<^verbatim>\<open>X-Hub-Signature-256\<close> header is not
  answered 401 whatever its body. The body parser runs before the signature check and
  refuses an \<^verbatim>\<open>application/json\<close> body of more than 102400 bytes with status 413.
\<close>

theorem oversized_unsigned_413:
  "post_webhook sample_hmac sample_parse test_secret (WebhookHandlers None)
     \<lparr>hdr_signature = None, hdr_event = Some ''ping'', hdr_delivery = None,
      content_type_json = True, raw_body = Some oversized_body\<rparr>
   = ([], Responded (Error_page 413)) \<and>
   length oversized_body = 102410 \<and>
   status_of (Error_page 413) \<noteq> 401"
  by (simp add: post_webhook_def express_raw_def req_body_def body_limit_def oversized_body_def
      padding_def)

text \<open>
  C4, amended. A request without the \<^verbatim>\<open>X-Hub-Signature-256\<close> header whose body the
  parser does not refuse (its body, if it is an \<^verbatim>\<open>application/json\<close> body, has at most
  102400 bytes) is answered 401 with the reason \<^verbatim>\<open>Missing signature\<close>, whatever its
  body, its content type, its other headers, the handlers and the JSON parser; a
  signature that is present (not empty), of the right length and wrong is answered 401
  with the different reason \<^verbatim>\<open>Invalid signature\<close>.
\<close>

theorem missing_signature_401:
  "((\<forall>bytes. c \<and> b = Some bytes \<longrightarrow> length bytes \<le> body_limit) \<longrightarrow>
      post_webhook hmac JSON_parse secret h
        \<lparr>hdr_signature = None, hdr_event = e, hdr_delivery = d, content_type_json = c, raw_body = b\<rparr>
      = ([], Responded (Response 401 ''error'' ''Missing signature''))) \<and>
   (s \<noteq> [] \<and> length (Buffer_from s) = 71 \<and> length B \<le> body_limit \<and>
    Buffer_from s \<noteq> expectedSignature hmac secret B \<longrightarrow>
      post_webhook hmac JSON_parse secret h
        \<lparr>hdr_signature = Some s, hdr_event = e, hdr_delivery = d, content_type_json = True,
         raw_body = Some B\<rparr>
      = ([], Responded (Response 401 ''error'' ''Invalid signature''))) \<and>
   ''Missing signature'' \<noteq> ''Invalid signature''"
  by (cases b)
     (auto simp: post_webhook_def express_raw_def req_body_def verify_missing
        verify_mismatch [where b = B])

theorem missing_signature_401_witness:
  "post_webhook sample_hmac sample_parse test_secret (WebhookHandlers None)
     \<lparr>hdr_signature = None, hdr_event = Some ''push'', hdr_delivery = None,
      content_type_json = True, raw_body = Some push_body\<rparr>
   = ([], Responded (Response 401 ''error'' ''Missing signature'')) \<and>
   post_webhook sample_hmac sample_parse test_secret (WebhookHandlers None)
     \<lparr>hdr_signature = Some (expectedSignature sample_hmac test_secret ping_body),
      hdr_event = Some ''push'', hdr_delivery = None,
      content_type_json = True, raw_body = Some push_body\<rparr>
   = ([], Responded (Response 401 ''error'' ''Invalid signature''))"
proof -
  have "sample_hmac test_secret ping_body \<noteq> sample_hmac test_secret push_body"
    by (simp add: sample_hmac_def test_secret_def length_ping_body length_push_body
        word_of_nat_eq_iff take_bit_nat_eq_self)
  then have "expectedSignature sample_hmac test_secret ping_body \<noteq>
      expectedSignature sample_hmac test_secret push_body"
    by (simp add: expected_inj)
  then show ?thesis
    using missing_signature_401 [of True "Some push_body" sample_hmac sample_parse test_secret
        "WebhookHandlers None" "Some ''push''" None
        "expectedSignature sample_hmac test_secret ping_body" push_body]
    by (simp add: Buffer_from_expected length_expected expected_nonempty length_push_body
        body_limit_def)
qed

text \<open>
  C7. Verifying a body against the signature computed over that body with the secret
  passes the check; verifying it against the signature of any body whose HMAC differs is
  rejected with 401. This holds for every function \<open>hmac\<close>, HMAC-SHA-256 among them.
\<close>

theorem signature_binds_body:
  "verifySignature hmac S
     \<lparr>hdr_signature = Some (expectedSignature hmac S B), hdr_event = e, hdr_delivery = d,
      content_type_json = True, raw_body = Some B\<rparr>
   = Next \<and>
   (hmac S B' \<noteq> hmac S B \<longrightarrow>
    verifySignature hmac S
      \<lparr>hdr_signature = Some (expectedSignature hmac S B'), hdr_event = e, hdr_delivery = d,
       content_type_json = True, raw_body = Some B\<rparr>
    = Reply (Response 401 ''error'' ''Invalid signature''))"
  by (simp add: verify_match [where b = B] verify_mismatch [where b = B] req_body_def
      Buffer_from_expected length_expected expected_inj expected_nonempty)

theorem signature_binds_body_witness:
  "verifySignature sample_hmac test_secret
     \<lparr>hdr_signature = Some (expectedSignature sample_hmac test_secret push_body),
      hdr_event = Some ''push'', hdr_delivery = None,
      content_type_json = True, raw_body = Some push_body\<rparr> = Next \<and>
   sample_hmac test_secret ping_body \<noteq> sample_hmac test_secret push_body \<and>
   verifySignature sample_hmac test_secret
     \<lparr>hdr_signature = Some (expectedSignature sample_hmac test_secret ping_body),
      hdr_event = Some ''push'', hdr_delivery = None,
      content_type_json = True, raw_body = Some push_body\<rparr>
   = Reply (Response 401 ''error'' ''Invalid signature'')"
proof -
  have "sample_hmac test_secret ping_body \<noteq> sample_hmac test_secret push_body"
    by (simp add: sample_hmac_def test_secret_def length_ping_body length_push_body
        word_of_nat_eq_iff take_bit_nat_eq_self)
  then show ?thesis
    using signature_binds_body [of sample_hmac test_secret push_body "Some ''push''" None ping_body]
    by simp
qed

section \<open>Laws of sequencing\<close>

lemma and_then_ret [simp]: "and_then (ret x) k = k x"
  by (simp add: and_then_def ret_def)

lemma and_then_throw [simp]: "and_then (throw e) k = throw e"
  by (simp add: and_then_def throw_def)

lemma and_then_Inr [simp]: "and_then (t, Inr x) k = (t @ fst (k x), snd (k x))"
  by (simp add: and_then_def)

lemma and_then_Inl [simp]: "and_then (t, Inl e) k = (t, Inl e)"
  by (simp add: and_then_def)

lemma try_catch_ret [simp]: "try_catch (ret x) handler = ret x"
  by (simp add: try_catch_def ret_def)

lemma try_catch_Inr [simp]: "try_catch (t, Inr x) handler = (t, Inr x)"
  by (simp add: try_catch_def)

lemma try_catch_Inl [simp]: "try_catch (t, Inl e) handler = (t @ fst (handler e), snd (handler e))"
  by (simp add: try_catch_def)

lemma try_catch_throw [simp]: "try_catch (throw e) handler = handler e"
  by (simp add: try_catch_def throw_def)

lemma fst_ret [simp]: "fst (ret x) = []"
  and snd_ret [simp]: "snd (ret x) = Inr x"
  and fst_throw [simp]: "fst (throw e) = []"
  and snd_throw [simp]: "snd (throw e) = Inl e"
  and fst_emit [simp]: "fst (emit f) = [f]"
  and snd_emit [simp]: "snd (emit f) = Inr ()"
  by (simp_all add: ret_def throw_def emit_def)

lemma ret_neq_throw [simp]: "ret x \<noteq> throw e" "throw e \<noteq> ret x"
  by (simp_all add: ret_def throw_def)

lemma ret_eq_iff [simp]: "ret x = ret y \<longleftrightarrow> x = y"
  by (simp add: ret_def)

lemma when_do_simps [simp]: "when_do True m = m" "when_do False m = ret ()"
  by (simp_all add: when_do_def)

section \<open>The scan for affected servers\<close>

lemma src_server_iff:
  "src_server path s \<longleftrightarrow>
   s \<noteq> [] \<and> CHR ''/'' \<notin> set s \<and> (\<exists>rest. path = ''src/'' @ s @ ''/'' @ rest)"
proof -
  have "take (length (''src/'' @ s @ ''/'')) path = ''src/'' @ s @ ''/'' \<longleftrightarrow>
      (\<exists>rest. path = (''src/'' @ s @ ''/'') @ rest)"
    by (metis append_eq_conv_conj append_take_drop_id)
  then show ?thesis
    by (simp add: src_server_def)
qed

lemma match_src_iff: "match_src path = Some s \<longleftrightarrow> src_server path s"
proof
  assume m: "match_src path = Some s"
  let ?rest = "drop 4 path"
  let ?P = "\<lambda>c. c \<noteq> CHR ''/''"
  from m have t: "take 4 path = ''src/''" and s: "s = takeWhile ?P ?rest"
    and ne: "s \<noteq> []" and len: "length s < length ?rest"
    by (auto simp: match_src_def Let_def split: if_splits)
  have "dropWhile ?P ?rest \<noteq> []"
    using len s by (metis append_Nil2 less_irrefl takeWhile_dropWhile_id)
  then have "\<not> ?P (hd (dropWhile ?P ?rest))"
    by (rule hd_dropWhile)
  then obtain tl' where d: "dropWhile ?P ?rest = CHR ''/'' # tl'"
    using \<open>dropWhile ?P ?rest \<noteq> []\<close> by (cases "dropWhile ?P ?rest") auto
  have "path = take 4 path @ ?rest" by simp
  also have "?rest = takeWhile ?P ?rest @ dropWhile ?P ?rest" by simp
  finally have "path = ''src/'' @ s @ ''/'' @ tl'"
    using t s d by simp
  moreover have "CHR ''/'' \<notin> set s"
    using s by (auto dest: set_takeWhileD)
  ultimately show "src_server path s"
    using ne unfolding src_server_iff by blast
next
  assume "src_server path s"
  then obtain rest where ne: "s \<noteq> []" and ns: "CHR ''/'' \<notin> set s"
    and p: "path = ''src/'' @ s @ ''/'' @ rest"
    unfolding src_server_iff by blast
  have "takeWhile (\<lambda>c. c \<noteq> CHR ''/'') (s @ CHR ''/'' # rest) = s"
    using ns by (induction s) auto
  then show "match_src path = Some s"
    using ne p by (simp add: match_src_def Let_def)
qed

lemma set_add_props:
  "set (set_add servers s) = insert s (set servers)"
  "distinct servers \<Longrightarrow> distinct (set_add servers s)"
  by (auto simp: set_add_def)

text \<open>The inner loop on a list of path strings, from any set collected so far.\<close>

lemma add_servers_strings:
  "\<exists>servers'. add_servers (map Str paths) servers = ret servers' \<and>
     set servers' = set servers \<union> {s. \<exists>p \<in> set paths. src_server p s} \<and>
     (distinct servers \<longrightarrow> distinct servers')"
proof (induction paths arbitrary: servers)
  case Nil
  then show ?case by simp
next
  case (Cons p paths)
  let ?acc = "case match_src p of None \<Rightarrow> servers | Some s \<Rightarrow> set_add servers s"
  obtain servers' where r: "add_servers (map Str paths) ?acc = ret servers'"
    and s: "set servers' = set ?acc \<union> {s. \<exists>p \<in> set paths. src_server p s}"
    and d: "distinct ?acc \<longrightarrow> distinct servers'"
    using Cons.IH [of ?acc] by blast
  have acc_set: "set ?acc = set servers \<union> {s. src_server p s}"
    by (cases "match_src p") (auto simp: set_add_props match_src_iff [symmetric])
  have acc_distinct: "distinct servers \<longrightarrow> distinct ?acc"
    by (cases "match_src p") (auto simp: set_add_props)
  have "add_servers (map Str (p # paths)) servers = ret servers'"
    using r by simp
  moreover have "set servers' = set servers \<union> {s. \<exists>q \<in> set (p # paths). src_server q s}"
    using s acc_set by auto
  ultimately show ?case
    using d acc_distinct by blast
qed

lemma strings_of_Some: "strings_of xs = Some ps \<Longrightarrow> xs = map Str ps"
proof (induction xs arbitrary: ps)
  case Nil
  then show ?case by simp
next
  case (Cons x xs)
  then show ?case
    by (cases x) (auto split: option.splits)
qed

lemma spread_listed:
  "listed_paths commit key = Some ps \<Longrightarrow>
   and_then (get commit key) (\<lambda>a. and_then (iterate (or_else a (Arr []))) k) = k (map Str ps)"
  by (auto simp: listed_paths_def or_else_def split: jsval.splits option.splits
      dest: strings_of_Some)

lemma changedFiles_listed:
  assumes "commit_paths commit = Some ps"
  shows "changedFiles commit = ret (map Str ps)"
proof -
  from assms obtain a m r where l: "listed_paths commit ''added'' = Some a"
      "listed_paths commit ''modified'' = Some m" "listed_paths commit ''removed'' = Some r"
    and ps: "ps = a @ m @ r"
    by (auto simp: commit_paths_def split: option.splits)
  show ?thesis
    unfolding changedFiles_def
    by (simp only: spread_listed [OF l(1)] spread_listed [OF l(2)] spread_listed [OF l(3)] ps map_append)
qed

lemma add_servers_append:
  "add_servers (map Str (ps @ qs)) servers =
   and_then (add_servers (map Str ps) servers) (\<lambda>servers'. add_servers (map Str qs) servers')"
  by (induction ps arbitrary: servers) simp_all

lemma scan_commits_flat:
  "map commit_paths commits = map Some pss \<Longrightarrow>
   scan_commits commits servers = add_servers (map Str (concat pss)) servers"
proof (induction commits arbitrary: pss servers)
  case Nil
  then show ?case by simp
next
  case (Cons c commits)
  then obtain ps pss' where pss: "pss = ps # pss'" and c: "commit_paths c = Some ps"
    and rest: "map commit_paths commits = map Some pss'"
    by (cases pss) auto
  obtain servers' where a: "add_servers (map Str ps) servers = ret servers'"
    using add_servers_strings [of ps servers] by blast
  show ?case
    using Cons.IH [OF rest] a
    by (simp add: pss changedFiles_listed [OF c] add_servers_append del: map_append)
qed

text \<open>
  C10. For commits that list their paths under \<^verbatim>\<open>added\<close>, \<^verbatim>\<open>modified\<close> and
  \<^verbatim>\<open>removed\<close> (a missing key lists nothing), \<^verbatim>\<open>getAffectedServers\<close> returns without
  duplicates exactly the strings \<open>s\<close> such that some listed path has the form
  \<^verbatim>\<open>src/s/...\<close>, and \<^verbatim>\<open>getAffectedServersFromPaths\<close> returns the same list from the
  flat list of those paths.
\<close>

theorem affected_servers:
  assumes "map commit_paths commits = map Some pss"
  shows "\<exists>servers.
     getAffectedServers (Arr commits) = ([], Inr servers) \<and>
     distinct servers \<and>
     set servers = {s. \<exists>ps \<in> set pss. \<exists>p \<in> set ps. src_server p s} \<and>
     getAffectedServersFromPaths (map Str (concat pss)) = ([], Inr servers)"
proof -
  obtain servers where r: "add_servers (map Str (concat pss)) [] = ret servers"
    and s: "set servers = set [] \<union> {s. \<exists>p \<in> set (concat pss). src_server p s}"
    and d: "distinct servers"
    using add_servers_strings [of "concat pss" "[]"] by auto
  have "getAffectedServers (Arr commits) = ret servers"
    using scan_commits_flat [OF assms] r by (simp add: getAffectedServers_def)
  moreover have "getAffectedServersFromPaths (map Str (concat pss)) = ret servers"
    using r by (simp add: getAffectedServersFromPaths_def)
  moreover have "set servers = {s. \<exists>ps \<in> set pss. \<exists>p \<in> set ps. src_server p s}"
    using s by auto
  ultimately show ?thesis
    using d by (auto simp: ret_def)
qed

theorem affected_servers_witness:
  "getAffectedServers
     (Arr [Obj [(''id'', Str ''c1''), (''added'', Arr [Str ''src/github/index.ts'', Str ''README.md'']),
                (''removed'', Arr [Str ''src/fetch/server.py''])],
           Obj [(''id'', Str ''c2'')],
           Obj [(''id'', Str ''c3''), (''modified'', Arr [Str ''src/github/common/utils.ts'', Str ''src/top.ts''])]])
   = ([], Inr [''github'', ''fetch'']) \<and>
   getAffectedServersFromPaths
     (map Str [''src/github/index.ts'', ''README.md'', ''src/fetch/server.py'',
               ''src/github/common/utils.ts'', ''src/top.ts''])
   = ([], Inr [''github'', ''fetch''])"
proof -
  let ?commits = "[Obj [(''id'', Str ''c1''), (''added'', Arr [Str ''src/github/index.ts'', Str ''README.md'']),
                (''removed'', Arr [Str ''src/fetch/server.py''])],
           Obj [(''id'', Str ''c2'')],
           Obj [(''id'', Str ''c3''), (''modified'', Arr [Str ''src/github/common/utils.ts'', Str ''src/top.ts''])]]"
  let ?pss = "[[''src/github/index.ts'', ''README.md'', ''src/fetch/server.py''], [],
               [''src/github/common/utils.ts'', ''src/top.ts'']]"
  have h: "map commit_paths ?commits = map Some ?pss"
    by (simp add: commit_paths_def listed_paths_def)
  have v: "getAffectedServersFromPaths (map Str (concat ?pss)) = ([], Inr [''github'', ''fetch''])"
    by (simp add: getAffectedServersFromPaths_def match_src_def set_add_def ret_def)
  show ?thesis
    using affected_servers [OF h] v by auto
qed

section \<open>The endpoint on a delivery that passed the signature check\<close>

lemma opt_get_returns: "\<exists>v. opt_get x p = ret v"
  by (cases x) simp_all

lemma to_string_Str [simp]: "to_string (Str s) = ret s"
  by (simp add: to_string_def)

lemma to_string_Undefined [simp]: "to_string Undefined = ret ''undefined''"
  by (simp add: to_string_def)

lemma to_string_header_value:
  "to_string (header_value e) = ret (case e of None \<Rightarrow> ''undefined'' | Some s \<Rightarrow> Buffer_from s)"
  by (cases e) simp_all

lemma logger_returns:
  "eval_list (map (\<lambda>m. and_then m to_string) interpolated) = ret vs \<Longrightarrow> eval_list meta = ret ms \<Longrightarrow>
   logger lvl msg interpolated meta = ([Log lvl msg (map Str vs)], Inr ())"
  by (simp add: logger_def emit_def)

lemma logger_plain [simp]: "logger lvl msg [] [] = ([Log lvl msg []], Inr ())"
  by (simp add: logger_def emit_def)

lemma logger_name [simp]: "logger lvl msg [ret (Str s)] [] = ([Log lvl msg [Str s]], Inr ())"
  by (simp add: logger_def emit_def)

lemma received_log [simp]:
  "logger LInfo msg [ret (Str s)] [opt_get x p] = ([Log LInfo msg [Str s]], Inr ())"
proof -
  obtain w where "opt_get x p = ret w"
    using opt_get_returns by blast
  then show ?thesis
    by (simp add: logger_def emit_def)
qed

lemma processing_log [simp]:
  "logger LInfo msg [ret (Str s)] [opt_get x p, ret y] = ([Log LInfo msg [Str s]], Inr ())"
proof -
  obtain w where "opt_get x p = ret w"
    using opt_get_returns by blast
  then show ?thesis
    by (simp add: logger_def emit_def)
qed

lemma library_verify_Next:
  "verifySignature hmac k req = Next \<Longrightarrow> req_body req = Buffer b \<Longrightarrow> b \<noteq> [] \<Longrightarrow>
   library_verify hmac k b (hdr_signature req)"
  by (auto simp: verify_Next_iff library_verify_def)

lemma library_verify_other:
  "verifySignature hmac k req = Next \<Longrightarrow> req_body req = Buffer b \<Longrightarrow> hmac k t \<noteq> hmac k b \<Longrightarrow>
   \<not> library_verify hmac k t (hdr_signature req)"
  by (auto simp: verify_Next_iff library_verify_def Buffer_from_expected expected_inj)

text \<open>The listeners registered with the library are those the \<^verbatim>\<open>switch\<close> selects.\<close>

lemma registrations_None:
  "n \<notin> set registered_events \<Longrightarrow> map_of (registrations h) n = None"
  by (simp add: registered_events_def registrations_def)

lemma registrations_Some:
  "handler_of n = Some k \<Longrightarrow>
   map_of (registrations h) n = Some (call_handle k (handle_method h k))"
  by (auto simp: handler_of_def registrations_def onPush_def onPullRequest_def onRelease_def
      onWorkflowRun_def onIssues_def onRepository_def fun_eq_iff split: if_splits)

lemma handler_of_registered: "handler_of n = Some k \<Longrightarrow> n \<in> set registered_events \<and> n \<noteq> []"
  by (auto simp: handler_of_def registered_events_def split: if_splits)


lemma handleEvent_unregistered:
  "n \<notin> set registered_events \<Longrightarrow>
   handleEvent h (Some n) (Obj kvs) d =
     ([Log LInfo ''Processing ${eventName} event'' [Str (Buffer_from n)],
       Log LWarn ''Unhandled event type: ${eventName}'' [Str (Buffer_from n)]], Inr ())"
  by (simp add: handleEvent_def registered_events_def)

lemma handleEvent_registered:
  "handler_of n = Some k \<Longrightarrow>
   handleEvent h (Some n) (Obj kvs) d =
     and_then ([Log LInfo ''Processing ${eventName} event'' [Str (Buffer_from n)]], Inr ()) (\<lambda>_.
     try_catch (call_handle k (handle_method h k) (Obj kvs))
       (\<lambda>error. ([Log LError ''Error handling ${eventName} event'' [Str (Buffer_from n)]], Inl error)))"
  by (auto simp: handleEvent_def handler_of_def throw_def
      onPush_def onPullRequest_def onRelease_def onWorkflowRun_def onIssues_def onRepository_def
      split: if_splits)

lemma receive_unregistered:
  "n \<noteq> [] \<Longrightarrow> n \<notin> set registered_events \<Longrightarrow>
   receive (registrations h) d (Some n) (Obj kvs) = ret ()"
  by (simp add: receive_def registrations_None)

lemma receive_registered:
  "handler_of n = Some k \<Longrightarrow>
   receive (registrations h) d (Some n) (Obj kvs) =
     try_catch (call_handle k (handle_method h k) (event_object d n (Obj kvs)))
       (\<lambda>error. ([Log LError ''Webhook error'' []], Inl (AggregateError [error])))"
  using handler_of_registered [of n k]
  by (simp add: receive_def registrations_Some onError_def throw_def)

text \<open>The route on a body that decodes to an object, before the library is called.\<close>

lemma route_decoded:
  assumes "req_body req = Buffer b" and "JSON_parse (Buffer_toString b) = Some (Obj kvs)"
    and "hdr_event req = Some n"
  shows "webhook_route hmac JSON_parse secret h req =
     and_then ([Log LInfo ''Received ${eventName} event'' [Str (Buffer_from n)]], Inr ()) (\<lambda>_.
     try_catch
       (and_then (verifyAndReceive hmac JSON_parse secret (registrations h) (hdr_delivery req)
                    (Some n) (hdr_signature req) (Buffer_toString b)) (\<lambda>_.
        and_then (handleEvent h (Some n) (Obj kvs) (hdr_delivery req)) (\<lambda>_.
        ret (Response 200 ''message'' ''Webhook processed successfully''))))
       (\<lambda>error. ([Log LError ''Error processing webhook'' []],
                  Inr (Response 500 ''error'' ''Internal server error''))))"
  using assms by (simp add: webhook_route_def Let_def)

lemma route_parsed:
  assumes "verifySignature hmac secret req = Next" "req_body req = Buffer b" "b \<noteq> []"
    and "Buffer_toString b = b" "JSON_parse b = Some (Obj kvs)" "hdr_event req = Some n"
  shows "webhook_route hmac JSON_parse secret h req =
     and_then ([Log LInfo ''Received ${eventName} event'' [Str (Buffer_from n)]], Inr ()) (\<lambda>_.
     try_catch
       (and_then (receive (registrations h) (hdr_delivery req) (Some n) (Obj kvs)) (\<lambda>_.
        and_then (handleEvent h (Some n) (Obj kvs) (hdr_delivery req)) (\<lambda>_.
        ret (Response 200 ''message'' ''Webhook processed successfully''))))
       (\<lambda>error. ([Log LError ''Error processing webhook'' []],
                  Inr (Response 500 ''error'' ''Internal server error''))))"
  using assms library_verify_Next [OF assms(1-3)]
  by (simp add: route_decoded [where b = b and kvs = kvs] verifyAndReceive_def)

text \<open>
  The library signs the decoded text again. When the body is not UTF-8 text, decoding
  changes it, and unless the two HMACs collide the library rejects the delivery that the
  middleware has let pass: the answer is 500.
\<close>

lemma reencoded_body_rejected:
  assumes "verifySignature hmac secret req = Next" and "req_body req = Buffer b"
    and "length b \<le> body_limit" and "hmac secret (Buffer_toString b) \<noteq> hmac secret b"
    and "JSON_parse (Buffer_toString b) = Some (Obj kvs)" and "hdr_event req = Some n"
  shows "post_webhook hmac JSON_parse secret h req =
           ([Log LInfo ''Received ${eventName} event'' [Str (Buffer_from n)],
             Log LError ''Webhook error'' [],
             Log LError ''Error processing webhook'' []],
            Responded (Response 500 ''error'' ''Internal server error''))"
  using assms library_verify_other [OF assms(1,2,4)]
  by (simp add: post_webhook_def express_raw_Next route_decoded [where b = b and kvs = kvs]
      verifyAndReceive_def onError_def throw_def)

lemma sample_parse_non_utf8:
  "sample_parse (Buffer_toString non_utf8_body) = Some (Obj [(''zen'', Str replacement)])"
  by (simp add: sample_parse_def non_utf8_body_def push_body_def pull_request_body_def
      ping_body_def incomplete_push_body_def null_body_def oversized_body_def
      Buffer_toString_def utf8_idle_def utf8_step_def utf8_start_def replacement_def)

lemma non_utf8_ping_rejected:
  "post_webhook sample_hmac sample_parse test_secret (WebhookHandlers None)
     (signed_delivery sample_hmac test_secret ''ping'' non_utf8_body) =
     ([Log LInfo ''Received ${eventName} event'' [Str ''ping''],
       Log LError ''Webhook error'' [],
       Log LError ''Error processing webhook'' []],
      Responded (Response 500 ''error'' ''Internal server error''))"
proof -
  let ?req = "signed_delivery sample_hmac test_secret ''ping'' non_utf8_body"
  have a: "verifySignature sample_hmac test_secret ?req = Next"
    by (rule verify_signed_delivery)
  have b: "req_body ?req = Buffer non_utf8_body" "length non_utf8_body \<le> body_limit"
    by (simp_all add: non_utf8_body_def body_limit_def)
  have "length (Buffer_toString non_utf8_body) = 13" "length non_utf8_body = 11"
    by (simp_all add: non_utf8_body_def Buffer_toString_def utf8_idle_def utf8_step_def
        utf8_start_def replacement_def)
  then have c: "sample_hmac test_secret (Buffer_toString non_utf8_body) \<noteq>
      sample_hmac test_secret non_utf8_body"
    by (simp add: sample_hmac_def test_secret_def word_of_nat_eq_iff take_bit_nat_eq_self)
  have d: "hdr_event ?req = Some ''ping''"
    by (simp add: signed_delivery_def)
  have "Buffer_from ''ping'' = ''ping''"
    by (simp add: Buffer_from_def)
  then show ?thesis
    using reencoded_body_rejected [where JSON_parse = sample_parse and h = "WebhookHandlers None",
        OF a b c sample_parse_non_utf8 d]
    by simp
qed

lemma ascii_oversized_body: "c \<in> set oversized_body \<Longrightarrow> of_char c < (128::nat)"
  by (auto simp: oversized_body_def padding_def)

lemma sample_parse_oversized:
  "sample_parse (Buffer_toString oversized_body) = Some (Obj [(''zen'', Str padding)])"
proof -
  have "Buffer_toString oversized_body = oversized_body"
    by (rule Buffer_toString_ascii) (rule ascii_oversized_body)
  then show ?thesis
    by (simp add: sample_parse_def oversized_body_def push_body_def pull_request_body_def
        ping_body_def incomplete_push_body_def null_body_def)
qed

text \<open>
  C6, as stated, fails: a validly signed delivery of an unregistered type whose body is
  well-formed JSON is not always answered 200. The body parser refuses a body of more
  than 102400 bytes with status 413 before anything else runs. The ping below is signed
  as the tests sign, its body is ASCII text of 102410 bytes and decodes to an object.
\<close>

theorem oversized_ping_413:
  "post_webhook sample_hmac sample_parse test_secret (WebhookHandlers None)
     (signed_delivery sample_hmac test_secret ''ping'' oversized_body)
   = ([], Responded (Error_page 413)) \<and>
   length oversized_body = 102410 \<and>
   verifySignature sample_hmac test_secret
     (signed_delivery sample_hmac test_secret ''ping'' oversized_body) = Next \<and>
   sample_parse (Buffer_toString oversized_body) = Some (Obj [(''zen'', Str padding)]) \<and>
   ''ping'' \<notin> set registered_events"
proof -
  have l: "length oversized_body = 102410"
    by (simp add: oversized_body_def padding_def)
  then have "post_webhook sample_hmac sample_parse test_secret (WebhookHandlers None)
     (signed_delivery sample_hmac test_secret ''ping'' oversized_body)
   = ([], Responded (Error_page 413))"
    by (simp add: post_webhook_def express_raw_too_large [where b = oversized_body] body_limit_def)
  then show ?thesis
    by (simp add: l verify_signed_delivery sample_parse_oversized registered_events_def)
qed

lemma unregistered_delivery:
  assumes "verifySignature hmac secret req = Next"
    and "req_body req = Buffer b" and "length b \<le> body_limit"
    and "b \<noteq> []" and "Buffer_toString b = b" and "JSON_parse b = Some (Obj kvs)"
    and "hdr_event req = Some n" and "n \<noteq> []" and "n \<notin> set registered_events"
  shows "post_webhook hmac JSON_parse secret h req =
           ([Log LInfo ''Received ${eventName} event'' [Str (Buffer_from n)],
             Log LInfo ''Processing ${eventName} event'' [Str (Buffer_from n)],
             Log LWarn ''Unhandled event type: ${eventName}'' [Str (Buffer_from n)]],
            Responded (Response 200 ''message'' ''Webhook processed successfully''))"
  using assms
  by (simp add: post_webhook_def express_raw_Next route_parsed [where b = b and kvs = kvs]
      receive_unregistered handleEvent_unregistered)

text \<open>
  C6, amended. A validly signed delivery of content type \<^verbatim>\<open>application/json\<close> whose
  body has at most 102400 bytes, is UTF-8 text and decodes to a JSON object, and whose
  event type is not empty and none of the six registered ones, is answered 200; the
  request logs three lines (received, processing, unhandled event type) and does nothing
  else: no \<^verbatim>\<open>handle\<close> is called, for any table of handlers.
\<close>

theorem unregistered_event_accepted:
  assumes "verifySignature hmac secret req = Next"
    and "req_body req = Buffer b" and "length b \<le> body_limit"
    and "b \<noteq> []" and "Buffer_toString b = b" and "JSON_parse b = Some (Obj kvs)"
    and "hdr_event req = Some n" and "n \<noteq> []" and "n \<notin> set registered_events"
  shows "post_webhook hmac JSON_parse secret h req =
           ([Log LInfo ''Received ${eventName} event'' [Str (Buffer_from n)],
             Log LInfo ''Processing ${eventName} event'' [Str (Buffer_from n)],
             Log LWarn ''Unhandled event type: ${eventName}'' [Str (Buffer_from n)]],
            Responded (Response 200 ''message'' ''Webhook processed successfully'')) \<and>
         handle_calls (fst (post_webhook hmac JSON_parse secret h req)) = [] \<and>
         list_all is_log (fst (post_webhook hmac JSON_parse secret h req))"
  by (simp add: unregistered_delivery [where JSON_parse = JSON_parse and b = b, OF assms])

lemma ascii_ping_body: "c \<in> set ping_body \<Longrightarrow> of_char c < (128::nat)"
  by (auto simp: ping_body_def)

lemma sample_parse_ping: "sample_parse ping_body = Some pingPayload"
  by (simp add: sample_parse_def ping_body_def push_body_def pull_request_body_def)

theorem unregistered_event_accepted_witness:
  "post_webhook sample_hmac sample_parse test_secret (WebhookHandlers None)
     (signed_delivery sample_hmac test_secret ''ping'' ping_body) =
           ([Log LInfo ''Received ${eventName} event'' [Str ''ping''],
             Log LInfo ''Processing ${eventName} event'' [Str ''ping''],
             Log LWarn ''Unhandled event type: ${eventName}'' [Str ''ping'']],
            Responded (Response 200 ''message'' ''Webhook processed successfully''))"
proof -
  let ?req = "signed_delivery sample_hmac test_secret ''ping'' ping_body"
  have a: "verifySignature sample_hmac test_secret ?req = Next"
    by (rule verify_signed_delivery)
  have b: "req_body ?req = Buffer ping_body" "length ping_body \<le> body_limit" "ping_body \<noteq> []"
    by (simp_all add: length_ping_body body_limit_def) (simp add: ping_body_def)
  have c: "Buffer_toString ping_body = ping_body"
    by (rule Buffer_toString_ascii) (rule ascii_ping_body)
  have d: "sample_parse ping_body = Some (Obj [(''zen'', Str ''Keep it logically awesome.''), (''hook_id'', Num 1)])"
    by (simp add: sample_parse_ping pingPayload_def)
  have e: "hdr_event ?req = Some ''ping''" "''ping'' \<noteq> []" "''ping'' \<notin> set registered_events"
    by (simp_all add: signed_delivery_def registered_events_def)
  have f: "Buffer_from ''ping'' = ''ping''"
    by (simp add: Buffer_from_def)
  show ?thesis
    using unregistered_event_accepted [where JSON_parse = sample_parse and req = ?req
        and h = "WebhookHandlers None", OF a b c d e]
    by (simp add: f)
qed

section \<open>Bodies that are not JSON, and the body \<^verbatim>\<open>null\<close>\<close>

lemma sample_parse_truncated: "sample_parse truncated_body = None"
  by (simp add: sample_parse_def truncated_body_def ping_body_def push_body_def pull_request_body_def
      incomplete_push_body_def null_body_def oversized_body_def Buffer_toString_def
      non_utf8_body_def utf8_idle_def utf8_step_def utf8_start_def replacement_def)

lemma ascii_truncated_body: "c \<in> set truncated_body \<Longrightarrow> of_char c < (128::nat)"
  by (auto simp: truncated_body_def)

lemma sample_parse_null: "sample_parse null_body = Some Null"
  by (simp add: sample_parse_def null_body_def ping_body_def push_body_def pull_request_body_def
      incomplete_push_body_def)

text \<open>
  C3. A validly signed request whose body is not well-formed JSON gets no 4xx response,
  and no response at all from the code: \<^verbatim>\<open>JSON.parse\<close> (line 64) stands before the
  \<^verbatim>\<open>try\<close> (line 68) of the route handler, so its \<^verbatim>\<open>SyntaxError\<close> leaves the handler
  uncaught, before anything is logged. Every failure inside the \<^verbatim>\<open>try\<close> is answered
  \<^verbatim>\<open>500 {error}\<close>.
\<close>

theorem malformed_body_unanswered:
  assumes "verifySignature hmac secret req = Next"
    and "req_body req = Buffer b" and "length b \<le> body_limit"
    and "JSON_parse (Buffer_toString b) = None"
  shows "post_webhook hmac JSON_parse secret h req = ([], Uncaught SyntaxError)"
  using assms by (simp add: post_webhook_def express_raw_Next webhook_route_def throw_def)

theorem malformed_body_unanswered_witness:
  "post_webhook sample_hmac sample_parse test_secret (WebhookHandlers None)
     (signed_delivery sample_hmac test_secret ''push'' truncated_body)
   = ([], Uncaught SyntaxError)"
proof -
  let ?req = "signed_delivery sample_hmac test_secret ''push'' truncated_body"
  have a: "verifySignature sample_hmac test_secret ?req = Next"
    by (rule verify_signed_delivery)
  have b: "req_body ?req = Buffer truncated_body" "length truncated_body \<le> body_limit"
    by (simp_all add: truncated_body_def body_limit_def)
  have "Buffer_toString truncated_body = truncated_body"
    by (rule Buffer_toString_ascii) (rule ascii_truncated_body)
  then have c: "sample_parse (Buffer_toString truncated_body) = None"
    by (simp add: sample_parse_truncated)
  show ?thesis
    using malformed_body_unanswered [where JSON_parse = sample_parse and req = ?req
        and h = "WebhookHandlers None", OF a b c] .
qed

text \<open>
  C9. A validly signed delivery whose body is the JSON text \<^verbatim>\<open>null\<close> has a decoded
  payload that lacks every field, and it is not answered 500: the first
  \<^verbatim>\<open>Logger.info\<close> of the route handler (line 66) reads \<^verbatim>\<open>payload.repository\<close> before
  the \<^verbatim>\<open>try\<close> (line 68), the \<^verbatim>\<open>TypeError\<close> leaves the handler uncaught, no handler is
  called and the code sends no response. This holds for every event type and every
  table of handlers.
\<close>

theorem null_payload_unanswered:
  assumes "verifySignature hmac secret req = Next"
    and "req_body req = Buffer b" and "length b \<le> body_limit"
    and "JSON_parse (Buffer_toString b) = Some Null"
  shows "post_webhook hmac JSON_parse secret h req = ([], Uncaught TypeError)"
  using assms
  by (simp add: post_webhook_def express_raw_Next webhook_route_def logger_def throw_def Let_def
      to_string_header_value)

theorem null_payload_unanswered_witness:
  "post_webhook sample_hmac sample_parse test_secret (WebhookHandlers None)
     (signed_delivery sample_hmac test_secret ''push'' null_body)
   = ([], Uncaught TypeError)"
proof -
  let ?req = "signed_delivery sample_hmac test_secret ''push'' null_body"
  have a: "verifySignature sample_hmac test_secret ?req = Next"
    by (rule verify_signed_delivery)
  have b: "req_body ?req = Buffer null_body" "length null_body \<le> body_limit"
    by (simp_all add: null_body_def body_limit_def)
  have "Buffer_toString null_body = null_body"
    by (rule Buffer_toString_ascii) (auto simp: null_body_def)
  then have c: "sample_parse (Buffer_toString null_body) = Some Null"
    by (simp add: sample_parse_null)
  show ?thesis
    using null_payload_unanswered [where JSON_parse = sample_parse and req = ?req
        and h = "WebhookHandlers None", OF a b c] .
qed

section \<open>Registered event types\<close>

lemma threw_call_handle [simp]: "threw (call_handle k f x) = threw (f x)"
  by (simp add: call_handle_def threw_def emit_def)

lemma call_handle_pair:
  "f x = (t, r) \<Longrightarrow> call_handle k f x = (Handle k x # t, r)"
  by (cases r) (simp_all add: call_handle_def emit_def)


text \<open>Whatever the handlers do, the first call of \<^verbatim>\<open>handle\<close> receives the event object.\<close>

lemma first_call_event_object:
  assumes "verifySignature hmac secret req = Next"
    and "req_body req = Buffer b" and "length b \<le> body_limit"
    and "b \<noteq> []" and "Buffer_toString b = b" and "JSON_parse b = Some (Obj kvs)"
    and "hdr_event req = Some n" and "handler_of n = Some k"
  shows "\<exists>rest. handle_calls (fst (post_webhook hmac JSON_parse secret h req)) =
           (k, event_object (hdr_delivery req) n (Obj kvs)) # rest"
proof -
  obtain t1 r1 where e: "handle_method h k (event_object (hdr_delivery req) n (Obj kvs)) = (t1, r1)"
    by (cases "handle_method h k (event_object (hdr_delivery req) n (Obj kvs))")
  obtain t2 r2 where p: "handle_method h k (Obj kvs) = (t2, r2)"
    by (cases "handle_method h k (Obj kvs)")
  show ?thesis
    using assms
    by (cases r1; cases r2)
       (simp_all add: post_webhook_def express_raw_Next route_parsed [where b = b and kvs = kvs]
          receive_registered handleEvent_registered
          call_handle_pair [where f = "handle_method h k", OF e]
          call_handle_pair [where f = "handle_method h k", OF p])
qed



text \<open>
  On the event object \<^verbatim>\<open>{id, name, payload}\<close> that the library passes to a listener,
  every handler throws at once: the object has no \<^verbatim>\<open>repository\<close> and no \<^verbatim>\<open>ref\<close>.
\<close>

lemma handle_event_object:
  "handle_method (WebhookHandlers octokit) k (event_object d n p) = ([], Inl TypeError)"
  by (cases k)
     (simp_all add: WebhookHandlers_def event_object_def PushHandler_handle_def
        PullRequestHandler_handle_def ReleaseHandler_handle_def WorkflowHandler_handle_def
        IssuesHandler_handle_def RepositoryHandler_handle_def logger_def throw_def)

text \<open>
  A delivery of a registered type whose body decodes to an object, for the handlers of
  the repository: what it does depends only on whether the library accepts the
  signature for the decoded text.
\<close>

lemma registered_delivery_cases:
  assumes "verifySignature hmac secret req = Next"
    and "req_body req = Buffer b" and "length b \<le> body_limit"
    and "JSON_parse (Buffer_toString b) = Some (Obj kvs)"
    and "hdr_event req = Some n" and "handler_of n = Some k"
  shows "post_webhook hmac JSON_parse secret (WebhookHandlers octokit) req =
           (if library_verify hmac secret (Buffer_toString b) (hdr_signature req)
            then [Log LInfo ''Received ${eventName} event'' [Str (Buffer_from n)],
                  Handle k (event_object (hdr_delivery req) n (Obj kvs)),
                  Log LError ''Webhook error'' [],
                  Log LError ''Error processing webhook'' []]
            else [Log LInfo ''Received ${eventName} event'' [Str (Buffer_from n)],
                  Log LError ''Webhook error'' [],
                  Log LError ''Error processing webhook'' []],
            Responded (Response 500 ''error'' ''Internal server error''))"
  using assms
  by (simp add: post_webhook_def express_raw_Next route_decoded [where b = b and kvs = kvs]
      verifyAndReceive_def receive_registered onError_def throw_def
      call_handle_pair [where f = "handle_method (WebhookHandlers octokit) k", OF handle_event_object])

lemma registered_delivery:
  assumes "verifySignature hmac secret req = Next"
    and "req_body req = Buffer b" and "length b \<le> body_limit"
    and "b \<noteq> []" and "Buffer_toString b = b" and "JSON_parse b = Some (Obj kvs)"
    and "hdr_event req = Some n" and "handler_of n = Some k"
  shows "post_webhook hmac JSON_parse secret (WebhookHandlers octokit) req =
           ([Log LInfo ''Received ${eventName} event'' [Str (Buffer_from n)],
             Handle k (event_object (hdr_delivery req) n (Obj kvs)),
             Log LError ''Webhook error'' [],
             Log LError ''Error processing webhook'' []],
            Responded (Response 500 ''error'' ''Internal server error''))"
  using assms library_verify_Next [OF assms(1,2,4)]
  by (simp add: registered_delivery_cases [where b = b and kvs = kvs and k = k])

lemma event_object_neq: "event_object d n p \<noteq> p"
proof
  assume "event_object d n p = p"
  then have "size (event_object d n p) = size p" by simp
  then show False by (simp add: event_object_def)
qed

lemma ascii_push_body: "c \<in> set push_body \<Longrightarrow> of_char c < (128::nat)"
  by (auto simp: push_body_def)

lemma sample_parse_push: "sample_parse push_body = Some pushPayload"
  by (simp add: sample_parse_def push_body_def)

lemma sample_parse_pull_request: "sample_parse pull_request_body = Some mockPayload"
  by (simp add: sample_parse_def push_body_def pull_request_body_def)

text \<open>The push delivery of the tests meets the hypotheses of the theorems below.\<close>

lemma test_push_delivery:
  "verifySignature sample_hmac test_secret (signed_delivery sample_hmac test_secret ''push'' push_body) = Next"
  "req_body (signed_delivery sample_hmac test_secret ''push'' push_body) = Buffer push_body"
  "length push_body \<le> body_limit"
  "push_body \<noteq> []"
  "Buffer_toString push_body = push_body"
  "sample_parse push_body = Some (Obj [(''ref'', Str ''refs/heads/main''),
          (''repository'', test_repository),
          (''commits'', Arr [Obj [(''id'', Str ''abc123''), (''added'', Arr [Str ''src/test.ts'']),
                                  (''modified'', Arr []), (''removed'', Arr [])]]),
          (''pusher'', Obj [(''name'', Str ''testuser'')])])"
  "hdr_event (signed_delivery sample_hmac test_secret ''push'' push_body) = Some ''push''"
  "handler_of ''push'' = Some PushHandler"
proof -
  show "verifySignature sample_hmac test_secret
      (signed_delivery sample_hmac test_secret ''push'' push_body) = Next"
    by (rule verify_signed_delivery)
  show "Buffer_toString push_body = push_body"
    by (rule Buffer_toString_ascii) (rule ascii_push_body)
  show "push_body \<noteq> []"
    by (simp add: push_body_def)
qed (simp_all add: length_push_body body_limit_def sample_parse_push pushPayload_def
    signed_delivery_def req_body_def handler_of_def)

text \<open>
  C1. For a validly signed delivery of a registered type whose body the parser reads and
  which decodes to a JSON object, \<^verbatim>\<open>handle\<close> is not called once with the decoded
  payload, and the request is answered 500. The listener that \<^verbatim>\<open>webhooks.on\<close>
  registered is the handler's own method; \<^verbatim>\<open>verifyAndReceive\<close> calls it with the event
  object \<^verbatim>\<open>{id, name, payload}\<close>, on which it throws, so the request is answered 500
  before \<^verbatim>\<open>handleEvent\<close> is reached: when the body is UTF-8 text, the only call of
  \<^verbatim>\<open>handle\<close> has the event object as its argument, and there is no call with the
  decoded payload. The tests of the repository expect 200 for such deliveries.
\<close>

theorem handle_called_with_event_object:
  assumes "verifySignature hmac secret req = Next"
    and "req_body req = Buffer b" and "length b \<le> body_limit"
    and "JSON_parse (Buffer_toString b) = Some (Obj kvs)"
    and "hdr_event req = Some n" and "handler_of n = Some k"
  shows "(b \<noteq> [] \<and> Buffer_toString b = b \<longrightarrow>
          handle_calls (fst (post_webhook hmac JSON_parse secret (WebhookHandlers octokit) req)) =
            [(k, event_object (hdr_delivery req) n (Obj kvs))]) \<and>
         handle_calls (fst (post_webhook hmac JSON_parse secret (WebhookHandlers octokit) req)) \<noteq>
           [(k, Obj kvs)] \<and>
         snd (post_webhook hmac JSON_parse secret (WebhookHandlers octokit) req) =
           Responded (Response 500 ''error'' ''Internal server error'')"
proof -
  have "b \<noteq> [] \<Longrightarrow> Buffer_toString b = b \<Longrightarrow>
      library_verify hmac secret (Buffer_toString b) (hdr_signature req)"
    using library_verify_Next [OF assms(1,2)] by simp
  then show ?thesis
    using event_object_neq [of "hdr_delivery req" n "Obj kvs"]
    by (auto simp: registered_delivery_cases [where JSON_parse = JSON_parse and req = req, OF assms])
qed

theorem handle_called_with_event_object_witness:
  "post_webhook sample_hmac sample_parse test_secret (WebhookHandlers None)
     (signed_delivery sample_hmac test_secret ''push'' push_body) =
     ([Log LInfo ''Received ${eventName} event'' [Str ''push''],
       Handle PushHandler
         (Obj [(''id'', Str ''test-delivery-id''), (''name'', Str ''push''), (''payload'', pushPayload)]),
       Log LError ''Webhook error'' [],
       Log LError ''Error processing webhook'' []],
      Responded (Response 500 ''error'' ''Internal server error'')) \<and>
   handle_calls (fst (post_webhook sample_hmac sample_parse test_secret (WebhookHandlers None)
     (signed_delivery sample_hmac test_secret ''push'' push_body))) =
     [(PushHandler,
       Obj [(''id'', Str ''test-delivery-id''), (''name'', Str ''push''), (''payload'', pushPayload)])]"
proof -
  let ?req = "signed_delivery sample_hmac test_secret ''push'' push_body"
  note t = test_push_delivery
  have c: "sample_parse (Buffer_toString push_body) = Some (Obj [(''ref'', Str ''refs/heads/main''),
          (''repository'', test_repository),
          (''commits'', Arr [Obj [(''id'', Str ''abc123''), (''added'', Arr [Str ''src/test.ts'']),
                                  (''modified'', Arr []), (''removed'', Arr [])]]),
          (''pusher'', Obj [(''name'', Str ''testuser'')])])"
    using t(5,6) by simp
  have f: "hdr_delivery ?req = Some ''test-delivery-id''"
    by (simp add: signed_delivery_def)
  have g: "Buffer_from ''push'' = ''push''" "Buffer_from ''test-delivery-id'' = ''test-delivery-id''"
    by (simp_all add: Buffer_from_def)
  show ?thesis
    using handle_called_with_event_object [where JSON_parse = sample_parse and req = ?req
        and octokit = None, OF t(1,2,3) c t(7,8)]
      registered_delivery [where JSON_parse = sample_parse and req = ?req
        and octokit = None, OF t]
    by (simp add: f g t(4,5) event_object_def pushPayload_def)
qed








section \<open>Payloads that lack a field\<close>

lemma get_then_throw [simp]: "and_then (get x p) (\<lambda>v. throw TypeError) = throw TypeError"
  by (cases x) simp_all

lemma as_string_then_throw [simp]: "and_then (as_string x) (\<lambda>s. throw TypeError) = throw TypeError"
  by (cases x) simp_all

lemma block_throw [simp]: "block (throw e # ms) = throw e"
  by simp

lemma logger_meta_throw [simp]: "eval_list meta = throw e \<Longrightarrow> logger lvl msg [] meta = throw e"
  by (simp add: logger_def)

lemma push_missing:
  "f \<in> set (dereferenced_fields PushHandler) \<Longrightarrow> map_of kvs f = None \<Longrightarrow>
   PushHandler_handle octokit (Obj kvs) = throw TypeError"
  by (auto simp: PushHandler_handle_def Let_def)

lemma pull_request_missing:
  "f \<in> set (dereferenced_fields PullRequestHandler) \<Longrightarrow> map_of kvs f = None \<Longrightarrow>
   PullRequestHandler_handle octokit (Obj kvs) = throw TypeError"
  by (auto simp: PullRequestHandler_handle_def)

lemma release_missing:
  "f \<in> set (dereferenced_fields ReleaseHandler) \<Longrightarrow> map_of kvs f = None \<Longrightarrow>
   ReleaseHandler_handle octokit (Obj kvs) = throw TypeError"
  by (auto simp: ReleaseHandler_handle_def)

lemma workflow_missing:
  "f \<in> set (dereferenced_fields WorkflowHandler) \<Longrightarrow> map_of kvs f = None \<Longrightarrow>
   WorkflowHandler_handle octokit (Obj kvs) = throw TypeError"
  by (auto simp: WorkflowHandler_handle_def)

lemma issues_missing:
  "f \<in> set (dereferenced_fields IssuesHandler) \<Longrightarrow> map_of kvs f = None \<Longrightarrow>
   IssuesHandler_handle octokit (Obj kvs) = throw TypeError"
  by (auto simp: IssuesHandler_handle_def)

lemma repository_missing:
  "f \<in> set (dereferenced_fields RepositoryHandler) \<Longrightarrow> map_of kvs f = None \<Longrightarrow>
   RepositoryHandler_handle octokit (Obj kvs) = throw TypeError"
  by (auto simp: RepositoryHandler_handle_def)

lemma handle_missing_field:
  "f \<in> set (dereferenced_fields k) \<Longrightarrow> map_of kvs f = None \<Longrightarrow>
   handle_method (WebhookHandlers octokit) k (Obj kvs) = ([], Inl TypeError)"
  by (cases k)
     (simp_all only: handle_method.simps WebhookHandlers_def handlers.simps push_missing
        pull_request_missing release_missing workflow_missing issues_missing repository_missing
        throw_def)

text \<open>
  A payload object that lacks a field its handler dereferences: \<^verbatim>\<open>handle\<close> throws a
  \<^verbatim>\<open>TypeError\<close> on it before doing anything, and \<^verbatim>\<open>handleEvent\<close> logs the error and
  throws it again, which the \<^verbatim>\<open>try\<close> of the route would answer with 500.
\<close>

lemma handleEvent_missing_field:
  assumes "handler_of n = Some k" and "f \<in> set (dereferenced_fields k)" and "map_of kvs f = None"
  shows "handleEvent (WebhookHandlers octokit) (Some n) (Obj kvs) d =
           ([Log LInfo ''Processing ${eventName} event'' [Str (Buffer_from n)],
             Handle k (Obj kvs),
             Log LError ''Error handling ${eventName} event'' [Str (Buffer_from n)]],
            Inl TypeError)"
  using assms(1)
  by (simp add: handleEvent_registered
      call_handle_pair [where f = "handle_method (WebhookHandlers octokit) k",
        OF handle_missing_field [OF assms(2,3)]])

lemma sample_parse_incomplete: "sample_parse incomplete_push_body = Some incompletePushPayload"
  by (simp add: sample_parse_def push_body_def pull_request_body_def ping_body_def
      incomplete_push_body_def)

lemma handle_incomplete_push:
  "PushHandler_handle octokit incompletePushPayload = ([], Inl TypeError)"
  using push_missing [of "''ref''" "[(''repository'', test_repository), (''commits'', Arr []),
          (''pusher'', Obj [(''name'', Str ''testuser'')])]" octokit]
  by (simp add: incompletePushPayload_def throw_def)

section \<open>Without an API client\<close>

text \<open>
  That a run makes no request is shown by following its structure; the rules are
  collected and applied to one function of the handlers at a time.
\<close>

named_theorems quiet \<open>runs that make no request to the API\<close>

lemma api_calls_append [simp]: "api_calls (xs @ ys) = api_calls xs @ api_calls ys"
  by (induction xs rule: api_calls.induct) simp_all

lemma no_request_ret [quiet]: "no_request (ret x)"
  by (simp add: no_request_def)

lemma no_request_throw [quiet]: "no_request (throw e)"
  by (simp add: no_request_def)

lemma no_request_log [quiet]: "no_request (emit (Log lvl msg vs))"
  by (simp add: no_request_def)

lemma no_request_handle [quiet]: "no_request (emit (Handle k x))"
  by (simp add: no_request_def)

lemma no_request_and_then [quiet]:
  "no_request m \<Longrightarrow> (\<And>x. no_request (k x)) \<Longrightarrow> no_request (and_then m k)"
  by (cases m; cases "snd m") (auto simp: no_request_def)

lemma no_request_try_catch [quiet]:
  "no_request m \<Longrightarrow> (\<And>e. no_request (handler e)) \<Longrightarrow> no_request (try_catch m handler)"
  by (cases m; cases "snd m") (auto simp: no_request_def)

lemma no_request_if [quiet]:
  "no_request a \<Longrightarrow> no_request b \<Longrightarrow> no_request (if c then a else b)"
  by simp

lemma no_request_case_option [quiet]:
  "no_request a \<Longrightarrow> (\<And>x. no_request (b x)) \<Longrightarrow> no_request (case opt of None \<Rightarrow> a | Some x \<Rightarrow> b x)"
  by (cases opt) simp_all

lemma no_request_block_Nil [quiet]: "no_request (block [])"
  by (simp add: no_request_ret)

lemma no_request_block_Cons [quiet]:
  "no_request m \<Longrightarrow> no_request (block ms) \<Longrightarrow> no_request (block (m # ms))"
  by (simp add: no_request_and_then)

lemma all_quiet_Nil [quiet]: "list_all no_request []"
  by simp

lemma all_quiet_Cons [quiet]: "no_request m \<Longrightarrow> list_all no_request ms \<Longrightarrow> list_all no_request (m # ms)"
  by simp

lemma all_quiet_append [quiet]:
  "list_all no_request ms \<Longrightarrow> list_all no_request ns \<Longrightarrow> list_all no_request (ms @ ns)"
  by simp

lemma all_quiet_map [quiet]: "(\<And>x. no_request (f x)) \<Longrightarrow> list_all no_request (map f xs)"
  by (simp add: list_all_iff)

lemma no_request_eval_list [quiet]: "list_all no_request ms \<Longrightarrow> no_request (eval_list ms)"
  by (induction ms) (auto intro!: no_request_and_then no_request_ret)

lemma no_request_to_string [quiet]: "no_request (to_string x)"
  by (simp add: to_string_def no_request_ret no_request_throw split: option.splits)

lemma all_quiet_converted:
  "list_all no_request ms \<Longrightarrow> list_all no_request (map (\<lambda>m. and_then m to_string) ms)"
  by (induction ms) (auto intro!: no_request_and_then no_request_to_string)

lemma no_request_logger [quiet]:
  "list_all no_request interpolated \<Longrightarrow> list_all no_request meta \<Longrightarrow>
   no_request (logger lvl msg interpolated meta)"
  unfolding logger_def
  by (intro no_request_and_then no_request_log no_request_eval_list all_quiet_converted)

lemma no_request_when_do [quiet]: "no_request m \<Longrightarrow> no_request (when_do c m)"
  by (simp add: when_do_def no_request_ret)

lemma no_request_for_each [quiet]: "(\<And>x. no_request (f x)) \<Longrightarrow> no_request (for_each f xs)"
  by (induction xs) (auto intro!: no_request_and_then no_request_ret)

lemma no_request_some_of [quiet]: "(\<And>x. no_request (f x)) \<Longrightarrow> no_request (some_of f xs)"
  by (induction xs) (auto intro!: no_request_and_then no_request_ret)

lemma no_request_filter_of [quiet]: "(\<And>x. no_request (f x)) \<Longrightarrow> no_request (filter_of f xs)"
  by (induction xs) (auto intro!: no_request_and_then no_request_ret)

lemma no_request_get [quiet]: "no_request (get x p)"
  by (cases x) (simp_all add: no_request_ret no_request_throw)

lemma no_request_gets [quiet]: "no_request (gets x ps)"
  by (induction ps arbitrary: x) (auto intro!: no_request_and_then no_request_ret no_request_get)

lemma no_request_opt_get [quiet]: "no_request (opt_get x p)"
  by (cases x) (simp_all add: no_request_ret no_request_throw)

lemma no_request_as_string [quiet]: "no_request (as_string x)"
  by (cases x) (simp_all add: no_request_ret no_request_throw)

lemma no_request_as_array [quiet]: "no_request (as_array x)"
  by (cases x) (simp_all add: no_request_ret no_request_throw)

lemma no_request_iterate [quiet]: "no_request (iterate x)"
  by (cases x) (simp_all add: no_request_ret no_request_throw)

lemma no_request_js_includes [quiet]: "no_request (js_includes x s)"
  by (cases x) (simp_all add: no_request_ret no_request_throw)

lemma no_request_changedFiles [quiet]: "no_request (changedFiles commit)"
  unfolding changedFiles_def by (intro quiet)

lemma no_request_add_servers [quiet]: "no_request (add_servers files servers)"
  by (induction files arbitrary: servers) (auto intro!: no_request_and_then no_request_ret no_request_as_string)

lemma no_request_scan_commits [quiet]: "no_request (scan_commits commits servers)"
  by (induction commits arbitrary: servers)
     (auto intro!: no_request_and_then no_request_ret no_request_changedFiles no_request_add_servers)

lemma no_request_getAffectedServers [quiet]: "no_request (getAffectedServers commits)"
  unfolding getAffectedServers_def by (intro quiet)

text \<open>The operations that require the API return at once when the client is \<^verbatim>\<open>null\<close>.\<close>

lemma skipped_without_client:
  "triggerServerTests None repository servers = ret ()"
  "addLabelsBasedOnChanges None repository pullRequest = ret ()"
  "checkAffectedServers None repository pullRequest = ret ()"
  "addWelcomeComment None repository pullRequest = ret ()"
  "requestReviewers None repository pullRequest = ret ()"
  "autoLabelIssue None repository issue = ret ()"
  "addIssueWelcomeComment None repository issue = ret ()"
  "verifyNpmPackages None repository release = ret ()"
  "verifyPyPIPackages None repository release = ret ()"
  "analyzeWorkflowFailure None repository workflowRun = ret ()"
  "getPreviousReleaseTag None repository = ret (Str ''HEAD~10'')"
  by (simp_all add: triggerServerTests_def addLabelsBasedOnChanges_def checkAffectedServers_def
      addWelcomeComment_def requestReviewers_def autoLabelIssue_def addIssueWelcomeComment_def
      verifyNpmPackages_def verifyPyPIPackages_def analyzeWorkflowFailure_def
      getPreviousReleaseTag_def)

subsection \<open>PushHandler\<close>

lemma handleMainBranchPush_quiet [quiet]: "no_request (handleMainBranchPush None payload)"
  unfolding handleMainBranchPush_def skipped_without_client by (intro quiet)

lemma handleReleaseBranchPush_quiet [quiet]: "no_request (handleReleaseBranchPush None payload)"
  unfolding handleReleaseBranchPush_def Let_def option.case by (intro quiet)

lemma checkForImportantFileChanges_quiet [quiet]: "no_request (checkForImportantFileChanges payload)"
  unfolding checkForImportantFileChanges_def by (intro quiet)

lemma push_no_request: "no_request (PushHandler_handle None payload)"
  unfolding PushHandler_handle_def Let_def by (intro quiet)

subsection \<open>PullRequestHandler\<close>

lemma handlePROpened_quiet [quiet]: "no_request (handlePROpened None payload)"
  unfolding handlePROpened_def skipped_without_client by (intro quiet)

lemma handlePRSynchronized_quiet [quiet]: "no_request (handlePRSynchronized None payload)"
  unfolding handlePRSynchronized_def skipped_without_client by (intro quiet)

lemma handlePRMerged_quiet [quiet]: "no_request (handlePRMerged payload)"
  unfolding handlePRMerged_def by (intro quiet)

lemma handlePRClosed_quiet [quiet]: "no_request (handlePRClosed payload)"
  unfolding handlePRClosed_def by (intro quiet)

lemma handlePRReadyForReview_quiet [quiet]: "no_request (handlePRReadyForReview None payload)"
  unfolding handlePRReadyForReview_def skipped_without_client by (intro quiet)

lemma pull_request_no_request: "no_request (PullRequestHandler_handle None payload)"
  unfolding PullRequestHandler_handle_def by (intro quiet)

subsection \<open>IssuesHandler\<close>

lemma issue_title_quiet [quiet]: "no_request (issue_title issue)"
  unfolding issue_title_def by (intro quiet)

lemma issue_body_quiet [quiet]: "no_request (issue_body issue)"
  unfolding issue_body_def by (intro quiet)

lemma categorizeIssue_quiet [quiet]: "no_request (categorizeIssue None repository issue)"
  unfolding categorizeIssue_def option.case by (intro quiet)

lemma handleIssueOpened_quiet [quiet]: "no_request (handleIssueOpened None payload)"
  unfolding handleIssueOpened_def skipped_without_client by (intro quiet)

lemma handleIssueClosed_quiet [quiet]: "no_request (handleIssueClosed payload)"
  unfolding handleIssueClosed_def by (intro quiet)

lemma handleIssueLabeled_quiet [quiet]: "no_request (handleIssueLabeled payload)"
  unfolding handleIssueLabeled_def by (intro quiet)

lemma handleIssueAssigned_quiet [quiet]: "no_request (handleIssueAssigned payload)"
  unfolding handleIssueAssigned_def by (intro quiet)

lemma issues_no_request: "no_request (IssuesHandler_handle None payload)"
  unfolding IssuesHandler_handle_def by (intro quiet)

subsection \<open>ReleaseHandler\<close>

lemma notifyNewRelease_quiet [quiet]: "no_request (notifyNewRelease repository release)"
  unfolding notifyNewRelease_def by (intro quiet)

lemma updatePackageRegistries_quiet [quiet]: "no_request (updatePackageRegistries None repository release)"
  unfolding updatePackageRegistries_def skipped_without_client by (intro quiet)

lemma generateReleaseMetrics_quiet [quiet]: "no_request (generateReleaseMetrics None repository release)"
  unfolding generateReleaseMetrics_def option.case by (intro quiet)

lemma validateReleaseNotes_quiet [quiet]: "no_request (validateReleaseNotes repository release)"
  unfolding validateReleaseNotes_def Let_def by (intro quiet)

lemma handleReleasePublished_quiet [quiet]: "no_request (handleReleasePublished None payload)"
  unfolding handleReleasePublished_def by (intro quiet)

lemma handleReleaseCreated_quiet [quiet]: "no_request (handleReleaseCreated payload)"
  unfolding handleReleaseCreated_def by (intro quiet)

lemma handleReleaseEdited_quiet [quiet]: "no_request (handleReleaseEdited payload)"
  unfolding handleReleaseEdited_def by (intro quiet)

lemma handleReleaseDeleted_quiet [quiet]: "no_request (handleReleaseDeleted payload)"
  unfolding handleReleaseDeleted_def by (intro quiet)

lemma release_no_request: "no_request (ReleaseHandler_handle None payload)"
  unfolding ReleaseHandler_handle_def by (intro quiet)

subsection \<open>WorkflowHandler\<close>

lemma calculateDuration_quiet [quiet]: "list_all no_request (calculateDuration workflow_run)"
  unfolding calculateDuration_def by (intro quiet)

lemma trackWorkflowMetrics_quiet [quiet]: "no_request (trackWorkflowMetrics repository workflowRun status)"
  unfolding trackWorkflowMetrics_def by (intro quiet)

lemma handleWorkflowRequested_quiet [quiet]: "no_request (handleWorkflowRequested payload)"
  unfolding handleWorkflowRequested_def by (intro quiet)

lemma handleWorkflowInProgress_quiet [quiet]: "no_request (handleWorkflowInProgress payload)"
  unfolding handleWorkflowInProgress_def by (intro quiet)

lemma handleReleaseWorkflowSuccess_quiet [quiet]: "no_request (handleReleaseWorkflowSuccess payload)"
  unfolding handleReleaseWorkflowSuccess_def by (intro quiet)

lemma handleTestWorkflowSuccess_quiet [quiet]: "no_request (handleTestWorkflowSuccess payload)"
  unfolding handleTestWorkflowSuccess_def by (intro quiet)

lemma handleWorkflowSuccess_quiet [quiet]: "no_request (handleWorkflowSuccess payload)"
  unfolding handleWorkflowSuccess_def by (intro quiet)

lemma notifyWorkflowFailure_quiet [quiet]: "no_request (notifyWorkflowFailure repository workflowRun)"
  unfolding notifyWorkflowFailure_def by (intro quiet)

lemma handleWorkflowFailure_quiet [quiet]: "no_request (handleWorkflowFailure None payload)"
  unfolding handleWorkflowFailure_def skipped_without_client by (intro quiet)

lemma handleWorkflowCancelled_quiet [quiet]: "no_request (handleWorkflowCancelled payload)"
  unfolding handleWorkflowCancelled_def by (intro quiet)

lemma handleWorkflowTimedOut_quiet [quiet]: "no_request (handleWorkflowTimedOut payload)"
  unfolding handleWorkflowTimedOut_def by (intro quiet)

lemma handleWorkflowCompleted_quiet [quiet]: "no_request (handleWorkflowCompleted None payload)"
  unfolding handleWorkflowCompleted_def by (intro quiet)

lemma workflow_no_request: "no_request (WorkflowHandler_handle None payload)"
  unfolding WorkflowHandler_handle_def by (intro quiet)

subsection \<open>RepositoryHandler\<close>

lemma repository_step_quiet [quiet]:
  "list_all no_request extra \<Longrightarrow> no_request (repository_step payload message extra setup_message)"
  unfolding repository_step_def by (intro quiet)

lemma repository_no_request: "no_request (RepositoryHandler_handle None payload)"
  unfolding RepositoryHandler_handle_def handleRepositoryCreated_def handleRepositoryDeleted_def
    handleRepositoryArchived_def handleRepositoryUnarchived_def handleRepositoryPublicized_def
    handleRepositoryPrivatized_def
  by (intro quiet)

subsection \<open>The whole request\<close>

lemma handle_no_request: "no_request (handle_method (WebhookHandlers None) k payload)"
  by (cases k)
     (simp_all add: WebhookHandlers_def push_no_request pull_request_no_request release_no_request
        workflow_no_request issues_no_request repository_no_request)

lemma call_handle_quiet [quiet]: "no_request (f x) \<Longrightarrow> no_request (call_handle k f x)"
  unfolding call_handle_def by (intro quiet)

lemma listeners_quiet:
  "no_request (onPush (WebhookHandlers None) x)"
  "no_request (onPullRequest (WebhookHandlers None) x)"
  "no_request (onRelease (WebhookHandlers None) x)"
  "no_request (onWorkflowRun (WebhookHandlers None) x)"
  "no_request (onIssues (WebhookHandlers None) x)"
  "no_request (onRepository (WebhookHandlers None) x)"
  unfolding onPush_def onPullRequest_def onRelease_def onWorkflowRun_def onIssues_def
    onRepository_def WebhookHandlers_def handlers.simps
  by (intro call_handle_quiet push_no_request pull_request_no_request release_no_request
      workflow_no_request issues_no_request repository_no_request)+

lemma handleEvent_quiet [quiet]: "no_request (handleEvent (WebhookHandlers None) eventName payload d)"
  unfolding handleEvent_def by (intro quiet listeners_quiet)

lemma onError_quiet [quiet]: "no_request onError"
  unfolding onError_def by (intro quiet)

lemma registered_listener:
  "map_of (registrations h) n = Some listener \<Longrightarrow>
   listener \<in> {onPush h, onPullRequest h, onRelease h, onWorkflowRun h, onIssues h, onRepository h}"
  by (auto simp: registrations_def split: if_splits)

lemma receive_quiet [quiet]:
  "no_request (receive (registrations (WebhookHandlers None)) d name payload)"
proof (cases "\<exists>n listener. name = Some n \<and> map_of (registrations (WebhookHandlers None)) n = Some listener")
  case True
  then obtain n listener where n: "name = Some n"
    and l: "map_of (registrations (WebhookHandlers None)) n = Some listener"
    by blast
  have "no_request (listener (event_object d n payload))"
    using registered_listener [OF l] listeners_quiet by auto
  then have "no_request (try_catch (listener (event_object d n payload))
      (\<lambda>error. and_then onError (\<lambda>_. throw (AggregateError [error]))))"
    by (intro quiet)
  then show ?thesis
    by (simp add: receive_def n l no_request_throw)
next
  case False
  then show ?thesis
    by (cases name) (auto simp: receive_def no_request_throw no_request_ret)
qed

lemma verifyAndReceive_quiet [quiet]:
  "no_request (verifyAndReceive hmac JSON_parse secret (registrations (WebhookHandlers None))
      d name signature payload)"
  unfolding verifyAndReceive_def by (intro quiet)

lemma webhook_route_quiet: "no_request (webhook_route hmac JSON_parse secret (WebhookHandlers None) req)"
  unfolding webhook_route_def Let_def by (intro quiet)

lemma post_webhook_quiet:
  "api_calls (fst (post_webhook hmac JSON_parse secret (WebhookHandlers None) req)) = []"
  using webhook_route_quiet [of hmac JSON_parse secret req]
  by (auto simp: post_webhook_def no_request_def split: verdict.splits prod.splits sum.splits)

lemma handleEvent_push_sample:
  "snd (handleEvent (WebhookHandlers None) (Some ''push'') pushPayload d) = Inr ()"
  by (simp add: handleEvent_def onPush_def call_handle_def WebhookHandlers_def pushPayload_def
      test_repository_def PushHandler_handle_def handleMainBranchPush_def
      checkForImportantFileChanges_def getAffectedServers_def changedFiles_def or_else_def
      match_src_def importantFiles_def logger_def emit_def startsWith_def)

text \<open>
  C8. When the client is \<^verbatim>\<open>null\<close>, every handler operation that requires the API
  returns at once, without a request and without throwing; no handler and no request to
  the endpoint makes a request to the API; and \<^verbatim>\<open>handleEvent\<close> returns normally on the
  push payload of the tests. The delivery itself is still answered 500, not 200: the
  listener registered with the library throws on the event object (see C1). The tests run
  without a token and expect 200.
\<close>

theorem client_absent:
  "triggerServerTests None repository servers = ([], Inr ()) \<and>
   addLabelsBasedOnChanges None repository pullRequest = ([], Inr ()) \<and>
   checkAffectedServers None repository pullRequest = ([], Inr ()) \<and>
   addWelcomeComment None repository pullRequest = ([], Inr ()) \<and>
   requestReviewers None repository pullRequest = ([], Inr ()) \<and>
   autoLabelIssue None repository issue = ([], Inr ()) \<and>
   addIssueWelcomeComment None repository issue = ([], Inr ()) \<and>
   verifyNpmPackages None repository release = ([], Inr ()) \<and>
   verifyPyPIPackages None repository release = ([], Inr ()) \<and>
   analyzeWorkflowFailure None repository workflowRun = ([], Inr ()) \<and>
   getPreviousReleaseTag None repository = ([], Inr (Str ''HEAD~10'')) \<and>
   no_request (handle_method (WebhookHandlers None) k payload) \<and>
   api_calls (fst (post_webhook hmac JSON_parse secret (WebhookHandlers None) req)) = [] \<and>
   snd (handleEvent (WebhookHandlers None) (Some ''push'') pushPayload d) = Inr () \<and>
   snd (post_webhook sample_hmac sample_parse test_secret (WebhookHandlers None)
          (signed_delivery sample_hmac test_secret ''push'' push_body)) =
     Responded (Response 500 ''error'' ''Internal server error'')"
proof -
  let ?req = "signed_delivery sample_hmac test_secret ''push'' push_body"
  have "snd (post_webhook sample_hmac sample_parse test_secret (WebhookHandlers None) ?req) =
     Responded (Response 500 ''error'' ''Internal server error'')"
    using registered_delivery [where JSON_parse = sample_parse and req = ?req and octokit = None,
        OF test_push_delivery]
    by simp
  then show ?thesis
    using handle_no_request [of k payload] post_webhook_quiet [of hmac JSON_parse secret req]
      handleEvent_push_sample [of d]
    by (simp add: skipped_without_client ret_def)
qed

end
